theory Spec2Isabelle
  imports Complex_Main
begin

section \<open>JavaScript numbers\<close>

text \<open>
  The calculator computes with JavaScript numbers. A number is modelled as a finite value,
  a negative zero, one of the two infinities, or NaN. \<open>Fin 0\<close> is the positive zero.
  Finite values are exact reals: the rounding of a double to 53 bits is not modelled, and
  overflow to Infinity and underflow to zero only where a decimal literal is read. Everything else follows the IEEE 754 tables that
  the JavaScript operators \<^verbatim>\<open>+ - * /\<close> implement, including the signs of zeros
  and infinities and the propagation of NaN.
\<close>

datatype number = Fin real | NegZero | PInf | NInf | NaN

definition is_nan :: "number \<Rightarrow> bool" where
  "is_nan v = (v = NaN)"

definition is_inf :: "number \<Rightarrow> bool" where
  "is_inf v = (v = PInf \<or> v = NInf)"

definition is_zero :: "number \<Rightarrow> bool" where
  "is_zero v = (v = Fin 0 \<or> v = NegZero)"

text \<open>\<open>isFinite\<close>: neither an infinity nor NaN.\<close>

definition is_finite :: "number \<Rightarrow> bool" where
  "is_finite v = (\<not> is_nan v \<and> \<not> is_inf v)"

text \<open>The sign bit (meaningless for NaN).\<close>

fun sign_bit :: "number \<Rightarrow> bool" where
  "sign_bit (Fin r) = (r < 0)"
| "sign_bit NegZero = True"
| "sign_bit PInf = False"
| "sign_bit NInf = True"
| "sign_bit NaN = False"

text \<open>The real value of a finite number.\<close>

fun val :: "number \<Rightarrow> real" where
  "val (Fin r) = r"
| "val _ = 0"

definition mk_zero :: "bool \<Rightarrow> number" where
  "mk_zero s = (if s then NegZero else Fin 0)"

definition mk_inf :: "bool \<Rightarrow> number" where
  "mk_inf s = (if s then NInf else PInf)"

text \<open>Unary minus.\<close>

fun js_neg :: "number \<Rightarrow> number" where
  "js_neg (Fin r) = (if r = 0 then NegZero else Fin (- r))"
| "js_neg NegZero = Fin 0"
| "js_neg PInf = NInf"
| "js_neg NInf = PInf"
| "js_neg NaN = NaN"

text \<open>\<^verbatim>\<open>a + b\<close>.\<close>

definition js_add :: "number \<Rightarrow> number \<Rightarrow> number" where
  "js_add a b =
     (if is_nan a \<or> is_nan b then NaN
      else if is_inf a then (if is_inf b \<and> a \<noteq> b then NaN else a)
      else if is_inf b then b
      else if a = NegZero then b
      else if b = NegZero then a
      else Fin (val a + val b))"

text \<open>\<^verbatim>\<open>a - b\<close>.\<close>

definition js_sub :: "number \<Rightarrow> number \<Rightarrow> number" where
  "js_sub a b = js_add a (js_neg b)"

text \<open>\<^verbatim>\<open>a * b\<close>.\<close>

definition js_mul :: "number \<Rightarrow> number \<Rightarrow> number" where
  "js_mul a b =
     (if is_nan a \<or> is_nan b then NaN
      else if is_inf a \<or> is_inf b then
        (if is_zero a \<or> is_zero b then NaN else mk_inf (sign_bit a \<noteq> sign_bit b))
      else if is_zero a \<or> is_zero b then mk_zero (sign_bit a \<noteq> sign_bit b)
      else Fin (val a * val b))"

text \<open>\<^verbatim>\<open>a / b\<close>: a division by zero is not an error, it gives an infinity or NaN.\<close>

definition js_div :: "number \<Rightarrow> number \<Rightarrow> number" where
  "js_div a b =
     (if is_nan a \<or> is_nan b then NaN
      else if is_inf a then (if is_inf b then NaN else mk_inf (sign_bit a \<noteq> sign_bit b))
      else if is_inf b then mk_zero (sign_bit a \<noteq> sign_bit b)
      else if is_zero b then (if is_zero a then NaN else mk_inf (sign_bit a \<noteq> sign_bit b))
      else if is_zero a then mk_zero (sign_bit a \<noteq> sign_bit b)
      else Fin (val a / val b))"

text \<open>\<^verbatim>\<open>Math.abs(a)\<close>.\<close>

fun Math_abs :: "number \<Rightarrow> number" where
  "Math_abs (Fin r) = Fin \<bar>r\<bar>"
| "Math_abs NegZero = Fin 0"
| "Math_abs PInf = PInf"
| "Math_abs NInf = PInf"
| "Math_abs NaN = NaN"

text \<open>\<^verbatim>\<open>Math.pow(a, 2)\<close>, the only exponent the calculator uses.\<close>

definition Math_pow2 :: "number \<Rightarrow> number" where
  "Math_pow2 a = js_mul a a"

text \<open>\<^verbatim>\<open>a || 0\<close> on a number: the falsy numbers are both zeros and NaN.\<close>

definition or_zero :: "number \<Rightarrow> number" where
  "or_zero a = (if is_zero a \<or> is_nan a then Fin 0 else a)"

section \<open>Number.prototype.toFixed(2)\<close>

definition digit_char :: "nat \<Rightarrow> char" where
  "digit_char d = ''0123456789'' ! d"

fun digits :: "nat \<Rightarrow> string" where
  "digits n = (if n < 10 then [digit_char n] else digits (n div 10) @ [digit_char (n mod 10)])"

declare digits.simps [simp del]

text \<open>
  \<open>toFixed2 big v\<close> is \<^verbatim>\<open>v.toFixed(2)\<close>. A non-finite number prints as its name.
  Otherwise the sign is split off, the magnitude is rounded to the nearest hundredth (the
  larger one on a tie) and printed with at least one digit before the point. From
  \<open>10^21\<close> on, toFixed falls back to \<^verbatim>\<open>Number.prototype.toString\<close>, whose
  shortest-digits output is a function of the double; it is the parameter \<open>big\<close>.
\<close>

definition toFixed2 :: "(real \<Rightarrow> string) \<Rightarrow> number \<Rightarrow> string" where
  "toFixed2 big v =
     (case v of
        NaN \<Rightarrow> ''NaN''
      | PInf \<Rightarrow> ''Infinity''
      | NInf \<Rightarrow> ''-Infinity''
      | NegZero \<Rightarrow> ''0.00''
      | Fin r \<Rightarrow>
          (let s = (if r < 0 then ''-'' else '''');
               a = \<bar>r\<bar>
           in if 10 ^ 21 \<le> a then s @ big a
              else
                (let n = nat \<lfloor>a * 100 + 1 / 2\<rfloor>;
                     m = digits n;
                     m' = (if length m \<le> 2 then replicate (3 - length m) CHR ''0'' @ m else m);
                     k = length m'
                 in s @ take (k - 2) m' @ ''.'' @ drop (k - 2) m')))"

section \<open>parseFloat\<close>

text \<open>
  \<^verbatim>\<open>parseFloat(text)\<close>: leading white space is skipped, then the longest prefix that
  is a decimal literal (an optional sign, then \<^verbatim>\<open>Infinity\<close> or digits with an
  optional fraction and an optional exponent) is converted; what follows the prefix is
  ignored, and NaN is returned when there is no such prefix. Characters are the code
  units below 256.
\<close>

definition is_space :: "char \<Rightarrow> bool" where
  "is_space c = (c \<in> set [CHR 0x09, CHR 0x0A, CHR 0x0B, CHR 0x0C, CHR 0x0D, CHR 0x20, CHR 0xA0])"

definition is_digit :: "char \<Rightarrow> bool" where
  "is_digit c = (c \<in> set ''0123456789'')"

definition digit_val :: "char \<Rightarrow> nat" where
  "digit_val c = of_char c - 48"

text \<open>The value of a string of decimal digits, most significant first.\<close>

definition digits_val :: "string \<Rightarrow> nat" where
  "digits_val ds = foldl (\<lambda>acc c. 10 * acc + digit_val c) 0 ds"

text \<open>
  The exponent part at the start of a string: \<^verbatim>\<open>e\<close> or \<^verbatim>\<open>E\<close>, an optional
  sign and at least one digit. Without a digit there is no exponent part and the exponent is 0.
\<close>

definition exponent_part :: "string \<Rightarrow> int" where
  "exponent_part s =
     (case s of
        [] \<Rightarrow> 0
      | c # t \<Rightarrow>
          if c = CHR ''e'' \<or> c = CHR ''E'' then
            (case t of
               [] \<Rightarrow> 0
             | d # u \<Rightarrow>
                 if d = CHR ''-'' then - int (digits_val (takeWhile is_digit u))
                 else if d = CHR ''+'' then int (digits_val (takeWhile is_digit u))
                 else int (digits_val (takeWhile is_digit t)))
          else 0)"

text \<open>\<open>m * 10^k\<close> for an integer \<open>k\<close> of either sign.\<close>

definition scale10 :: "nat \<Rightarrow> int \<Rightarrow> real" where
  "scale10 m k = (if 0 \<le> k then real m * 10 ^ nat k else real m / 10 ^ nat (- k))"

text \<open>
  The number for a decimal literal of magnitude \<open>a\<close>. A magnitude that rounds beyond
  the largest double (from \<open>2^1024 - 2^970\<close> on) is an infinity, and one that rounds
  below the smallest (up to \<open>2^-1075\<close>) is a zero. In between the value is kept exact.
\<close>

definition literal_value :: "bool \<Rightarrow> real \<Rightarrow> number" where
  "literal_value neg a =
     (if a \<le> 1 / 2 ^ 1075 then mk_zero neg
      else if 2 ^ 1024 - 2 ^ 970 \<le> a then mk_inf neg
      else Fin (if neg then - a else a))"

text \<open>The unsigned literal at the start of a string, or NaN when there is none.\<close>

definition unsigned_literal :: "bool \<Rightarrow> string \<Rightarrow> number" where
  "unsigned_literal neg s =
     (if take 8 s = ''Infinity'' then mk_inf neg
      else
        (let ip = takeWhile is_digit s;
             r1 = dropWhile is_digit s;
             has_point = (r1 \<noteq> [] \<and> hd r1 = CHR ''.'');
             fp = (if has_point then takeWhile is_digit (tl r1) else []);
             r2 = (if has_point then dropWhile is_digit (tl r1) else r1)
         in if ip = [] \<and> fp = [] then NaN
            else literal_value neg
                   (scale10 (digits_val (ip @ fp)) (exponent_part r2 - int (length fp)))))"

definition parseFloat :: "string \<Rightarrow> number" where
  "parseFloat text =
     (case dropWhile is_space text of
        [] \<Rightarrow> NaN
      | c # t \<Rightarrow>
          if c = CHR ''-'' then unsigned_literal True t
          else if c = CHR ''+'' then unsigned_literal False t
          else unsigned_literal False (c # t))"

section \<open>The expression evaluator\<close>

text \<open>
  The page imports \<^verbatim>\<open>evaluate\<close> and \<^verbatim>\<open>derivative\<close> from mathjs. They are
  parameters of the model. \<open>evaluate h e v\<close> is \<^verbatim>\<open>evaluate(e, { x: v })\<close> and
  \<open>derivative h e var\<close> is \<^verbatim>\<open>derivative(e, var).toString()\<close>; \<open>Inl msg\<close> is a
  thrown error with message \<open>msg\<close>. \<open>Number_toString\<close> is the fallback of toFixed.
  The source declares the three closures with result type \<^verbatim>\<open>number\<close>, and so does
  the model: an evaluation throws or returns a number. An evaluation that returns something
  else (mathjs can return a complex number or \<^verbatim>\<open>undefined\<close>), on which
  \<^verbatim>\<open>toFixed\<close> would throw, is outside the model.
\<close>

record host =
  evaluate :: "string \<Rightarrow> number \<Rightarrow> string + number"
  derivative :: "string \<Rightarrow> string \<Rightarrow> string + string"
  Number_toString :: "real \<Rightarrow> string"

section \<open>The component in src/app/page.tsx\<close>

datatype method_kind = Standard | Modified

text \<open>
  \<^verbatim>\<open>interface IterationResult\<close>. The fields carry the prefix \<open>ir_\<close>; the optional
  \<^verbatim>\<open>fppx\<close> is an option.
\<close>

record IterationResult =
  ir_iteration :: int
  ir_x :: string
  ir_fx :: string
  ir_fpx :: string
  ir_fppx :: "string option"
  ir_x_next :: string
  ir_error :: string
  ir_et :: string
  ir_formula :: string

text \<open>
  The state variables of the component \<^verbatim>\<open>Home\<close>. The variable
  \<^verbatim>\<open>method\<close> is the field \<open>sel_method\<close>. \<^verbatim>\<open>iterations\<close> is set by
  \<^verbatim>\<open>parseInt\<close>, so it is an integer or NaN. With NaN the loop test
  \<^verbatim>\<open>i < iterations\<close> is false at once, as with 0, which stands for it.
\<close>

record state =
  equation :: string
  initialGuess :: string
  iterations :: int
  sel_method :: method_kind
  results :: "IterationResult list"
  loading :: bool
  error :: string
  trueRoot :: string

text \<open>The three closures \<^verbatim>\<open>f\<close>, \<^verbatim>\<open>fPrime\<close> and \<^verbatim>\<open>fDoublePrime\<close>.\<close>

definition f :: "host \<Rightarrow> string \<Rightarrow> number \<Rightarrow> string + number" where
  "f h eq v = evaluate h eq v"

definition fPrime :: "host \<Rightarrow> string \<Rightarrow> number \<Rightarrow> string + number" where
  "fPrime h eq v =
     (case derivative h eq ''x'' of
        Inl e \<Rightarrow> Inl e
      | Inr d \<Rightarrow> evaluate h d v)"

definition fDoublePrime :: "host \<Rightarrow> string \<Rightarrow> number \<Rightarrow> string + number" where
  "fDoublePrime h eq v =
     (case derivative h eq ''x'' of
        Inl e \<Rightarrow> Inl e
      | Inr d \<Rightarrow>
          (case derivative h d ''x'' of
             Inl e \<Rightarrow> Inl e
           | Inr dd \<Rightarrow> evaluate h dd v))"

definition calculateError :: "number \<Rightarrow> number \<Rightarrow> number" where
  "calculateError current previous =
     js_mul (Math_abs (js_div (js_sub current previous) current)) (Fin 100)"

definition trueRootValue :: "string \<Rightarrow> number" where
  "trueRootValue text = or_zero (parseFloat text)"

text \<open>
  The numbers that one pass of the loop body computes, before any of them is formatted:
  the entering \<^verbatim>\<open>x0\<close>, then \<^verbatim>\<open>fx\<close>, \<^verbatim>\<open>fpx\<close>, \<^verbatim>\<open>fppx\<close>,
  \<^verbatim>\<open>x1\<close>, \<^verbatim>\<open>et\<close> and \<^verbatim>\<open>ea\<close>.
\<close>

record iter_vals =
  v_x0 :: number
  v_fx :: number
  v_fpx :: number
  v_fppx :: number
  v_x1 :: number
  v_et :: number
  v_ea :: number

text \<open>The update of each branch of \<^verbatim>\<open>if (method === "standard")\<close>.\<close>

definition next_x :: "method_kind \<Rightarrow> number \<Rightarrow> number \<Rightarrow> number \<Rightarrow> number \<Rightarrow> number" where
  "next_x m x0 fx fpx fppx =
     (if m = Standard then js_sub x0 (js_div fx fpx)
      else
        (let numerator = js_mul fx fpx;
             denominator = js_sub (Math_pow2 fpx) (js_mul fx fppx)
         in js_sub x0 (js_div numerator denominator)))"

text \<open>
  The computations of one pass: the three evaluations in the order of the source, each of
  which may throw, then the arithmetic, which cannot.
\<close>

definition body :: "host \<Rightarrow> string \<Rightarrow> method_kind \<Rightarrow> number \<Rightarrow> number \<Rightarrow> string + iter_vals" where
  "body h eq m tr x0 =
     (case f h eq x0 of
        Inl e \<Rightarrow> Inl e
      | Inr fx \<Rightarrow>
          (case fPrime h eq x0 of
             Inl e \<Rightarrow> Inl e
           | Inr fpx \<Rightarrow>
               (case fDoublePrime h eq x0 of
                  Inl e \<Rightarrow> Inl e
                | Inr fppx \<Rightarrow>
                    (let x1 = next_x m x0 fx fpx fppx;
                         et = js_mul (Math_abs (js_div (js_sub tr x1) tr)) (Fin 100);
                         ea = calculateError x1 x0
                     in Inr \<lparr>v_x0 = x0, v_fx = fx, v_fpx = fpx, v_fppx = fppx,
                              v_x1 = x1, v_et = et, v_ea = ea\<rparr>))))"

definition formula_standard :: string where
  "formula_standard =
     ''x_{i+1} = x_i - '' @ [CHR 0x5C] @ ''frac{f(x_i)}{f'' @ [CHR 0x27] @ ''(x_i)}''"

definition formula_modified :: string where
  "formula_modified =
     ''x_{i+1} = x_i - '' @ [CHR 0x5C] @ ''frac{f(x_i) '' @ [CHR 0x5C] @ ''cdot f'' @ [CHR 0x27]
       @ ''(x_i)}{[f'' @ [CHR 0x27] @ ''(x_i)]^2 - f(x_i) '' @ [CHR 0x5C] @ ''cdot f''
       @ [CHR 0x27, CHR 0x27] @ ''(x_i)}''"

text \<open>The object that \<^verbatim>\<open>iterationResults.push\<close> receives in pass \<open>i\<close>.\<close>

definition mk_result :: "host \<Rightarrow> method_kind \<Rightarrow> int \<Rightarrow> iter_vals \<Rightarrow> IterationResult" where
  "mk_result h m i l =
     (let fmt = toFixed2 (Number_toString h) in
      if m = Standard then
        \<lparr>ir_iteration = i + 1, ir_x = fmt (v_x0 l), ir_fx = fmt (v_fx l), ir_fpx = fmt (v_fpx l),
         ir_fppx = None, ir_x_next = fmt (v_x1 l), ir_error = fmt (v_ea l) @ ''%'',
         ir_et = fmt (v_et l) @ ''%'', ir_formula = formula_standard\<rparr>
      else
        \<lparr>ir_iteration = i + 1, ir_x = fmt (v_x0 l), ir_fx = fmt (v_fx l), ir_fpx = fmt (v_fpx l),
         ir_fppx = Some (fmt (v_fppx l)), ir_x_next = fmt (v_x1 l), ir_error = fmt (v_ea l) @ ''%'',
         ir_et = fmt (v_et l) @ ''%'', ir_formula = formula_modified\<rparr>)"

text \<open>
  \<^verbatim>\<open>for (let i = 0; i < iterations; i++) { ...; x0 = x1; }\<close> with the list
  \<^verbatim>\<open>iterationResults\<close> as accumulator. A throw leaves the loop with the message.
\<close>

function loop ::
  "host \<Rightarrow> string \<Rightarrow> method_kind \<Rightarrow> number \<Rightarrow> int \<Rightarrow> int \<Rightarrow> number \<Rightarrow> IterationResult list
     \<Rightarrow> string + IterationResult list" where
  "loop h eq m tr n i x0 acc =
     (if i < n then
        (case body h eq m tr x0 of
           Inl e \<Rightarrow> Inl e
         | Inr l \<Rightarrow> loop h eq m tr n (i + 1) (v_x1 l) (acc @ [mk_result h m i l]))
      else Inr acc)"
  by pat_completeness auto
termination
  by (relation "measure (\<lambda>(h, eq, m, tr, n, i, x0, acc). nat (n - i))") auto

declare loop.simps [simp del]

text \<open>The body of the \<^verbatim>\<open>try\<close> block, up to the call of \<^verbatim>\<open>setResults\<close>.\<close>

definition run :: "host \<Rightarrow> state \<Rightarrow> string + IterationResult list" where
  "run h st =
     loop h (equation st) (sel_method st) (trueRootValue (trueRoot st)) (iterations st) 0
       (parseFloat (initialGuess st)) []"

text \<open>
  The handler, as the state it leaves. On success \<^verbatim>\<open>setResults\<close> stores the list.
  On a throw the \<^verbatim>\<open>catch\<close> block stores the message and \<^verbatim>\<open>results\<close> is not
  assigned. \<^verbatim>\<open>finally\<close> clears \<^verbatim>\<open>loading\<close> in both cases.
\<close>

definition calculateNewtonRaphson :: "host \<Rightarrow> state \<Rightarrow> state" where
  "calculateNewtonRaphson h st =
     (let st1 = st\<lparr>loading := True, error := []\<rparr> in
      case run h st of
        Inr iterationResults \<Rightarrow> st1\<lparr>results := iterationResults, loading := False\<rparr>
      | Inl msg \<Rightarrow> st1\<lparr>error := ''Error: '' @ msg, loading := False\<rparr>)"

text \<open>
  The passes of the loop as the numbers they computed: the values of every completed pass,
  in order, and the message of the throw that ended the loop, if any. It follows the loop
  step by step and keeps what the loop formats or drops.
\<close>

function trace ::
  "host \<Rightarrow> string \<Rightarrow> method_kind \<Rightarrow> number \<Rightarrow> int \<Rightarrow> int \<Rightarrow> number \<Rightarrow> iter_vals list \<times> string option" where
  "trace h eq m tr n i x0 =
     (if i < n then
        (case body h eq m tr x0 of
           Inl e \<Rightarrow> ([], Some e)
         | Inr l \<Rightarrow> (let r = trace h eq m tr n (i + 1) (v_x1 l) in (l # fst r, snd r)))
      else ([], None))"
  by pat_completeness auto
termination
  by (relation "measure (\<lambda>(h, eq, m, tr, n, i, x0). nat (n - i))") auto

declare trace.simps [simp del]

definition run_trace :: "host \<Rightarrow> state \<Rightarrow> iter_vals list \<times> string option" where
  "run_trace h st =
     trace h (equation st) (sel_method st) (trueRootValue (trueRoot st)) (iterations st) 0
       (parseFloat (initialGuess st))"

text \<open>The records of consecutive passes, the first of them pass \<open>i\<close>.\<close>

fun fmt_from :: "host \<Rightarrow> method_kind \<Rightarrow> int \<Rightarrow> iter_vals list \<Rightarrow> IterationResult list" where
  "fmt_from h m i [] = []"
| "fmt_from h m i (l # ls) = mk_result h m i l # fmt_from h m (i + 1) ls"

text \<open>The iterate with which the pass after the completed passes \<open>ls\<close> is entered.\<close>

definition entering :: "number \<Rightarrow> iter_vals list \<Rightarrow> number" where
  "entering x0 ls = (if ls = [] then x0 else v_x1 (last ls))"

text \<open>
  An evaluator that returns a number at every input, for the expression and its two
  derivatives.
\<close>

definition evaluator_ok :: "host \<Rightarrow> string \<Rightarrow> bool" where
  "evaluator_ok h eq =
     (\<forall>v. (\<exists>a. f h eq v = Inr a) \<and> (\<exists>b. fPrime h eq v = Inr b) \<and> (\<exists>c. fDoublePrime h eq v = Inr c))"

section \<open>The component in the second source file\<close>

text \<open>
  The second file holds another revision of the same page. Its record has no \<^verbatim>\<open>et\<close>
  field and its state no \<^verbatim>\<open>trueRoot\<close>. It rounds every step, and says so on the
  page: \<^verbatim>\<open>All calculations are rounded to 2 decimal places for each step.\<close> Names of
  this revision end in \<open>_p0\<close>.
\<close>

record IterationResult_p0 =
  p0_iteration :: int
  p0_x :: string
  p0_fx :: string
  p0_fpx :: string
  p0_fppx :: "string option"
  p0_x_next :: string
  p0_error :: string
  p0_formula :: string

record state_p0 =
  equation_p0 :: string
  initialGuess_p0 :: string
  iterations_p0 :: int
  method_p0 :: method_kind
  results_p0 :: "IterationResult_p0 list"
  loading_p0 :: bool
  error_p0 :: string

text \<open>
  The numbers of one pass: \<^verbatim>\<open>x0\<close>, the rounded \<^verbatim>\<open>fx\<close>, \<^verbatim>\<open>fpx\<close> and
  \<^verbatim>\<open>fppx\<close>, \<^verbatim>\<open>x1\<close> as first assigned, \<^verbatim>\<open>x1\<close> as reassigned by
  \<^verbatim>\<open>x1 = parseFloat(x1.toFixed(2))\<close>, and \<^verbatim>\<open>et\<close>.
\<close>

record iter_vals_p0 =
  w_x0 :: number
  w_fx :: number
  w_fpx :: number
  w_fppx :: number
  w_x1_first :: number
  w_x1 :: number
  w_et :: number

text \<open>
  One pass. The source calls \<^verbatim>\<open>f(x0)\<close>, \<^verbatim>\<open>fPrime(x0)\<close> and
  \<^verbatim>\<open>fDoublePrime(x0)\<close> again inside the update; the evaluator is a function, so the
  repeated calls return what the first ones returned.
\<close>

definition body_p0 :: "host \<Rightarrow> string \<Rightarrow> method_kind \<Rightarrow> number \<Rightarrow> string + iter_vals_p0" where
  "body_p0 h eq m x0 =
     (let fmt = toFixed2 (Number_toString h) in
      case f h eq x0 of
        Inl e \<Rightarrow> Inl e
      | Inr a \<Rightarrow>
          (case fPrime h eq x0 of
             Inl e \<Rightarrow> Inl e
           | Inr b \<Rightarrow>
               (case fDoublePrime h eq x0 of
                  Inl e \<Rightarrow> Inl e
                | Inr c \<Rightarrow>
                    (let fx = parseFloat (fmt a);
                         fpx = parseFloat (fmt b);
                         fppx = parseFloat (fmt c);
                         x1_first =
                           (if m = Standard then js_sub x0 (js_div a b)
                            else
                              (let numerator = js_mul a b;
                                   denominator = js_sub (Math_pow2 b) (js_mul a c)
                               in js_sub x0 (js_div numerator denominator)));
                         x1 = parseFloat (fmt x1_first);
                         et = calculateError x1 x0
                     in Inr \<lparr>w_x0 = x0, w_fx = fx, w_fpx = fpx, w_fppx = fppx,
                              w_x1_first = x1_first, w_x1 = x1, w_et = et\<rparr>))))"

definition mk_result_p0 :: "host \<Rightarrow> method_kind \<Rightarrow> int \<Rightarrow> iter_vals_p0 \<Rightarrow> IterationResult_p0" where
  "mk_result_p0 h m i l =
     (let fmt = toFixed2 (Number_toString h) in
      if m = Standard then
        \<lparr>p0_iteration = i + 1, p0_x = fmt (w_x0 l), p0_fx = fmt (w_fx l), p0_fpx = fmt (w_fpx l),
         p0_fppx = None, p0_x_next = fmt (w_x1 l), p0_error = fmt (w_et l) @ ''%'',
         p0_formula = formula_standard\<rparr>
      else
        \<lparr>p0_iteration = i + 1, p0_x = fmt (w_x0 l), p0_fx = fmt (w_fx l), p0_fpx = fmt (w_fpx l),
         p0_fppx = Some (fmt (w_fppx l)), p0_x_next = fmt (w_x1 l), p0_error = fmt (w_et l) @ ''%'',
         p0_formula = formula_modified\<rparr>)"

text \<open>
  The loop of this version. The assignment \<^verbatim>\<open>x0 = x1\<close> at the end of the body
  takes the reassigned \<^verbatim>\<open>x1\<close>.
\<close>

function loop_p0 ::
  "host \<Rightarrow> string \<Rightarrow> method_kind \<Rightarrow> int \<Rightarrow> int \<Rightarrow> number \<Rightarrow> IterationResult_p0 list
     \<Rightarrow> string + IterationResult_p0 list" where
  "loop_p0 h eq m n i x0 acc =
     (if i < n then
        (case body_p0 h eq m x0 of
           Inl e \<Rightarrow> Inl e
         | Inr l \<Rightarrow> loop_p0 h eq m n (i + 1) (w_x1 l) (acc @ [mk_result_p0 h m i l]))
      else Inr acc)"
  by pat_completeness auto
termination
  by (relation "measure (\<lambda>(h, eq, m, n, i, x0, acc). nat (n - i))") auto

declare loop_p0.simps [simp del]

definition run_p0 :: "host \<Rightarrow> state_p0 \<Rightarrow> string + IterationResult_p0 list" where
  "run_p0 h st =
     loop_p0 h (equation_p0 st) (method_p0 st) (iterations_p0 st) 0
       (parseFloat (initialGuess_p0 st)) []"

definition calculateNewtonRaphson_p0 :: "host \<Rightarrow> state_p0 \<Rightarrow> state_p0" where
  "calculateNewtonRaphson_p0 h st =
     (let st1 = st\<lparr>loading_p0 := True, error_p0 := []\<rparr> in
      case run_p0 h st of
        Inr iterationResults \<Rightarrow> st1\<lparr>results_p0 := iterationResults, loading_p0 := False\<rparr>
      | Inl msg \<Rightarrow> st1\<lparr>error_p0 := ''Error: '' @ msg, loading_p0 := False\<rparr>)"

section \<open>Evaluators for the examples\<close>

text \<open>
  A table evaluator for the expressions of the examples: \<open>x^2 - 4\<close> and \<open>x\<close> with
  their first and second derivatives. Any other expression throws.
\<close>

definition example_host :: host where
  "example_host =
     \<lparr>evaluate = (\<lambda>e v.
        if e = ''x^2 - 4'' then Inr (js_sub (js_mul v v) (Fin 4))
        else if e = ''2 * x'' then Inr (js_mul (Fin 2) v)
        else if e = ''2'' then Inr (Fin 2)
        else if e = ''x'' then Inr v
        else if e = ''1'' then Inr (Fin 1)
        else if e = ''0'' then Inr (Fin 0)
        else Inl (''Undefined symbol '' @ e)),
      derivative = (\<lambda>e var.
        if e = ''x^2 - 4'' then Inr ''2 * x''
        else if e = ''2 * x'' then Inr ''2''
        else if e = ''x'' then Inr ''1''
        else if e = ''2'' \<or> e = ''1'' \<or> e = ''0'' then Inr ''0''
        else Inl (''Undefined symbol '' @ e)),
      Number_toString = (\<lambda>r. [])\<rparr>"

text \<open>The same evaluator, throwing \<open>msg\<close> when asked to evaluate at a zero.\<close>

definition throws_at_zero :: "string \<Rightarrow> host" where
  "throws_at_zero msg =
     example_host\<lparr>evaluate := (\<lambda>e v. if is_zero v then Inl msg else evaluate example_host e v)\<rparr>"

text \<open>The same evaluator, unable to differentiate \<open>2 * x\<close>.\<close>

definition no_second_derivative :: "string \<Rightarrow> host" where
  "no_second_derivative msg =
     example_host\<lparr>derivative := (\<lambda>e var. if e = ''2 * x'' then Inl msg else derivative example_host e var)\<rparr>"

text \<open>
  A table evaluator for scenario B of the specification, the cubic that the page shows
  at start, with its first and second derivatives. Any other expression throws.
\<close>

definition cubic_host :: host where
  "cubic_host =
     \<lparr>evaluate = (\<lambda>e v.
        if e = ''12*x^3 - 30*x^2 - 84*x + 48'' then
          Inr (js_add (js_sub (js_sub (js_mul (Fin 12) (js_mul v (js_mul v v)))
                 (js_mul (Fin 30) (js_mul v v))) (js_mul (Fin 84) v)) (Fin 48))
        else if e = ''36 * x ^ 2 - 60 * x - 84'' then
          Inr (js_sub (js_sub (js_mul (Fin 36) (js_mul v v)) (js_mul (Fin 60) v)) (Fin 84))
        else if e = ''72 * x - 60'' then Inr (js_sub (js_mul (Fin 72) v) (Fin 60))
        else Inl (''Undefined symbol '' @ e)),
      derivative = (\<lambda>e var.
        if e = ''12*x^3 - 30*x^2 - 84*x + 48'' then Inr ''36 * x ^ 2 - 60 * x - 84''
        else if e = ''36 * x ^ 2 - 60 * x - 84'' then Inr ''72 * x - 60''
        else Inl (''Undefined symbol '' @ e)),
      Number_toString = (\<lambda>r. [])\<rparr>"

text \<open>
  The evaluator of the examples, throwing \<open>msg\<close> when asked to evaluate the second
  derivative \<open>2\<close> of \<open>x^2 - 4\<close> at the number \<open>x\<close>, and only there.
\<close>

definition second_derivative_fails_at :: "number \<Rightarrow> string \<Rightarrow> host" where
  "second_derivative_fails_at x msg =
     example_host\<lparr>evaluate :=
       (\<lambda>e v. if e = ''2'' \<and> v = x then Inl msg else evaluate example_host e v)\<rparr>"

definition example_state :: "string \<Rightarrow> string \<Rightarrow> int \<Rightarrow> method_kind \<Rightarrow> string \<Rightarrow> state" where
  "example_state eq guess n m rt =
     \<lparr>equation = eq, initialGuess = guess, iterations = n, sel_method = m, results = [],
      loading = False, error = [], trueRoot = rt\<rparr>"

definition example_state_p0 :: "string \<Rightarrow> string \<Rightarrow> int \<Rightarrow> method_kind \<Rightarrow> state_p0" where
  "example_state_p0 eq guess n m =
     \<lparr>equation_p0 = eq, initialGuess_p0 = guess, iterations_p0 = n, method_p0 = m,
      results_p0 = [], loading_p0 = False, error_p0 = []\<rparr>"

text \<open>
  Scenario A of the specification (\<open>x^2 - 4\<close> from 3, three Standard passes) with the
  true root 2 supplied, the same with no true root and with the text \<open>Infinity\<close>, and
  scenario A on the second file's page.
\<close>

definition scenario_A :: state where
  "scenario_A = example_state ''x^2 - 4'' ''3'' 3 Standard ''2''"

definition scenario_A_no_root :: state where
  "scenario_A_no_root = example_state ''x^2 - 4'' ''3'' 3 Standard []"

definition scenario_A_inf_root :: state where
  "scenario_A_inf_root = example_state ''x^2 - 4'' ''3'' 3 Standard ''Infinity''"

definition scenario_A_p0 :: state_p0 where
  "scenario_A_p0 = example_state_p0 ''x^2 - 4'' ''3'' 3 Standard"

text \<open>
  The anomaly scenario of the specification (\<open>f(x) = x\<close> from 0), the same expression
  from 3 and from a text that is no number, and \<open>x^2 - 4\<close> from 0, where \<open>f'\<close> is zero.
\<close>

definition anomaly :: state where
  "anomaly = example_state ''x'' ''0'' 3 Standard []"

definition identity_from_3 :: state where
  "identity_from_3 = example_state ''x'' ''3'' 3 Standard []"

definition bad_guess :: state where
  "bad_guess = example_state ''x'' ''abc'' 2 Standard []"

definition flat_start :: state where
  "flat_start = example_state ''x^2 - 4'' ''0'' 3 Standard []"

text \<open>
  Scenario B of the specification: the cubic from -1 under Modified, two passes. And
  \<open>f(x) = x\<close> from a literal that is too large for a double.
\<close>

definition scenario_B :: state where
  "scenario_B = example_state ''12*x^3 - 30*x^2 - 84*x + 48'' ''-1'' 2 Modified []"

definition huge_guess :: state where
  "huge_guess = example_state ''x'' ''1e400'' 2 Standard []"

section \<open>Facts about the model\<close>

subsection \<open>The arithmetic\<close>

lemmas js_simps = js_add_def js_sub_def js_mul_def js_div_def is_nan_def is_inf_def is_zero_def
  mk_zero_def mk_inf_def Math_pow2_def is_finite_def

lemma abs_div: "Math_abs (js_div a b) = js_div (Math_abs a) (Math_abs b)"
  by (cases a; cases b) (auto simp: js_simps)

lemma div_zero_not_finite: "is_zero b \<Longrightarrow> \<not> is_finite (js_div a b)"
  by (cases a) (auto simp: js_simps)

lemma sub_not_finite_left: "\<not> is_finite a \<Longrightarrow> \<not> is_finite (js_sub a b)"
  by (cases a; cases b) (auto simp: js_simps js_sub_def)

lemma sub_not_finite_right: "\<not> is_finite b \<Longrightarrow> \<not> is_finite (js_sub a b)"
  by (cases a; cases b) (auto simp: js_simps js_sub_def)

lemma mul_100_not_finite: "\<not> is_finite a \<Longrightarrow> \<not> is_finite (js_mul a (Fin 100))"
  by (cases a) (auto simp: js_simps)

lemma abs_finite: "is_finite (Math_abs a) = is_finite a"
  by (cases a) (auto simp: js_simps)

lemma toFixed2_not_finite:
  "\<not> is_finite v \<Longrightarrow> toFixed2 big v = ''NaN'' \<or> toFixed2 big v = ''Infinity'' \<or> toFixed2 big v = ''-Infinity''"
  by (cases v) (auto simp: js_simps toFixed2_def)

lemma error_zero_not_finite: "is_zero current \<Longrightarrow> \<not> is_finite (calculateError current previous)"
  unfolding calculateError_def
  by (intro mul_100_not_finite) (simp add: abs_finite div_zero_not_finite)

lemma true_error_zero_not_finite:
  "is_zero tr \<Longrightarrow> \<not> is_finite (js_mul (Math_abs (js_div (js_sub tr x) tr)) (Fin 100))"
  by (intro mul_100_not_finite) (simp add: abs_finite div_zero_not_finite)

lemma next_x_not_finite: "\<not> is_finite x \<Longrightarrow> \<not> is_finite (next_x m x a b c)"
  by (simp add: next_x_def Let_def sub_not_finite_left)

lemma next_x_standard_zero: "is_zero b \<Longrightarrow> \<not> is_finite (next_x Standard x a b c)"
  by (simp add: next_x_def sub_not_finite_right div_zero_not_finite)

lemma next_x_modified_zero:
  "is_zero (js_sub (Math_pow2 b) (js_mul a c)) \<Longrightarrow> \<not> is_finite (next_x Modified x a b c)"
  by (simp add: next_x_def Let_def sub_not_finite_right div_zero_not_finite)

lemma true_root_kept: "parseFloat text = Fin r \<Longrightarrow> r \<noteq> 0 \<Longrightarrow> trueRootValue text = Fin r"
  by (simp add: trueRootValue_def or_zero_def is_zero_def is_nan_def)

subsection \<open>One pass\<close>

lemma body_Inr:
  assumes "body h eq m tr x = Inr l"
  shows "v_x0 l = x" and "f h eq x = Inr (v_fx l)" and "fPrime h eq x = Inr (v_fpx l)"
    and "fDoublePrime h eq x = Inr (v_fppx l)"
    and "v_x1 l = next_x m x (v_fx l) (v_fpx l) (v_fppx l)"
    and "v_et l = js_mul (Math_abs (js_div (js_sub tr (v_x1 l)) tr)) (Fin 100)"
    and "v_ea l = calculateError (v_x1 l) x"
  using assms by (auto simp: body_def Let_def split: sum.splits)

lemma body_Inl:
  "body h eq m tr x = Inl e \<Longrightarrow> f h eq x = Inl e \<or> fPrime h eq x = Inl e \<or> fDoublePrime h eq x = Inl e"
  by (auto simp: body_def Let_def split: sum.splits)

lemma body_ok: "evaluator_ok h eq \<Longrightarrow> \<exists>l. body h eq m tr x = Inr l"
  unfolding evaluator_ok_def body_def Let_def
  by (metis (no_types, lifting) sum.case(2))

lemma body_second_derivative_throws:
  "f h eq x = Inr a \<Longrightarrow> fPrime h eq x = Inr b \<Longrightarrow> fDoublePrime h eq x = Inl e \<Longrightarrow> body h eq m tr x = Inl e"
  by (simp add: body_def)

lemma body_true_root:
  "(case body h eq m tr x of Inl e \<Rightarrow> Inl e | Inr l \<Rightarrow> Inr (v_x1 l)) =
   (case body h eq m tr' x of Inl e \<Rightarrow> Inl e | Inr l \<Rightarrow> Inr (v_x1 l))"
  by (simp add: body_def Let_def split: sum.splits)

lemma mk_result_fields:
  "ir_iteration (mk_result h m i l) = i + 1"
  "ir_x (mk_result h m i l) = toFixed2 (Number_toString h) (v_x0 l)"
  "ir_fx (mk_result h m i l) = toFixed2 (Number_toString h) (v_fx l)"
  "ir_fpx (mk_result h m i l) = toFixed2 (Number_toString h) (v_fpx l)"
  "ir_fppx (mk_result h m i l) = (if m = Standard then None else Some (toFixed2 (Number_toString h) (v_fppx l)))"
  "ir_x_next (mk_result h m i l) = toFixed2 (Number_toString h) (v_x1 l)"
  "ir_error (mk_result h m i l) = toFixed2 (Number_toString h) (v_ea l) @ ''%''"
  "ir_et (mk_result h m i l) = toFixed2 (Number_toString h) (v_et l) @ ''%''"
  by (simp_all add: mk_result_def Let_def)

lemma mk_result_p0_fields:
  "p0_iteration (mk_result_p0 h m i l) = i + 1"
  "p0_x (mk_result_p0 h m i l) = toFixed2 (Number_toString h) (w_x0 l)"
  "p0_fx (mk_result_p0 h m i l) = toFixed2 (Number_toString h) (w_fx l)"
  "p0_fpx (mk_result_p0 h m i l) = toFixed2 (Number_toString h) (w_fpx l)"
  "p0_x_next (mk_result_p0 h m i l) = toFixed2 (Number_toString h) (w_x1 l)"
  "p0_error (mk_result_p0 h m i l) = toFixed2 (Number_toString h) (w_et l) @ ''%''"
  by (simp_all add: mk_result_p0_def Let_def)

subsection \<open>The passes of a loop\<close>

lemma trace_done: "\<not> i < n \<Longrightarrow> trace h eq m tr n i x0 = ([], None)"
  by (simp add: trace.simps [of h eq m tr n i])

lemma trace_throw: "i < n \<Longrightarrow> body h eq m tr x0 = Inl e \<Longrightarrow> trace h eq m tr n i x0 = ([], Some e)"
  by (simp add: trace.simps [of h eq m tr n i])

lemma trace_step:
  "i < n \<Longrightarrow> body h eq m tr x0 = Inr l \<Longrightarrow>
   trace h eq m tr n i x0 =
     (l # fst (trace h eq m tr n (i + 1) (v_x1 l)), snd (trace h eq m tr n (i + 1) (v_x1 l)))"
  by (simp add: trace.simps [of h eq m tr n i] Let_def)

lemma trace_cases:
  obtains (finished) "\<not> i < n" "trace h eq m tr n i x0 = ([], None)"
  | (thrown) e where "i < n" "body h eq m tr x0 = Inl e" "trace h eq m tr n i x0 = ([], Some e)"
  | (stepped) l where "i < n" "body h eq m tr x0 = Inr l"
      "trace h eq m tr n i x0 =
         (l # fst (trace h eq m tr n (i + 1) (v_x1 l)), snd (trace h eq m tr n (i + 1) (v_x1 l)))"
  by (cases "i < n"; cases "body h eq m tr x0") (auto simp: trace_done trace_throw trace_step)

lemma trace_body:
  "l \<in> set (fst (trace h eq m tr n i x0)) \<Longrightarrow> body h eq m tr (v_x0 l) = Inr l"
proof (induction h eq m tr n i x0 rule: trace.induct)
  case (1 h eq m tr n i x0)
  show ?case
  proof (cases h eq m tr n i x0 rule: trace_cases)
    case finished
    with "1.prems" show ?thesis by simp
  next
    case (thrown e)
    with "1.prems" show ?thesis by simp
  next
    case (stepped l')
    show ?thesis
    proof (cases "l = l'")
      case True
      with stepped body_Inr(1) [OF stepped(2)] show ?thesis by simp
    next
      case False
      with stepped "1.prems" have "l \<in> set (fst (trace h eq m tr n (i + 1) (v_x1 l')))" by simp
      with "1.IH" [OF stepped(1) stepped(2)] show ?thesis by simp
    qed
  qed
qed

lemma trace_first: "fst (trace h eq m tr n i x0) \<noteq> [] \<Longrightarrow> v_x0 (fst (trace h eq m tr n i x0) ! 0) = x0"
  by (cases h eq m tr n i x0 rule: trace_cases) (auto dest: body_Inr(1))

lemma trace_chain:
  "Suc k < length (fst (trace h eq m tr n i x0)) \<Longrightarrow>
   v_x0 (fst (trace h eq m tr n i x0) ! Suc k) = v_x1 (fst (trace h eq m tr n i x0) ! k)"
proof (induction h eq m tr n i x0 arbitrary: k rule: trace.induct)
  case (1 h eq m tr n i x0)
  show ?case
  proof (cases h eq m tr n i x0 rule: trace_cases)
    case finished
    with "1.prems" show ?thesis by simp
  next
    case (thrown e)
    with "1.prems" show ?thesis by simp
  next
    case (stepped l)
    let ?r = "trace h eq m tr n (i + 1) (v_x1 l)"
    from stepped "1.prems" have len: "k < length (fst ?r)" by simp
    show ?thesis
    proof (cases k)
      case 0
      from len have "fst ?r \<noteq> []" by auto
      from trace_first [OF this] stepped 0 show ?thesis by simp
    next
      case (Suc j)
      with len have "Suc j < length (fst ?r)" by simp
      from "1.IH" [OF stepped(1) stepped(2) this] stepped Suc show ?thesis by simp
    qed
  qed
qed

lemma trace_stop:
  "snd (trace h eq m tr n i x0) = Some e \<Longrightarrow>
   body h eq m tr (entering x0 (fst (trace h eq m tr n i x0))) = Inl e"
proof (induction h eq m tr n i x0 rule: trace.induct)
  case (1 h eq m tr n i x0)
  show ?case
  proof (cases h eq m tr n i x0 rule: trace_cases)
    case finished
    with "1.prems" show ?thesis by simp
  next
    case (thrown e')
    with "1.prems" show ?thesis by (simp add: entering_def)
  next
    case (stepped l)
    let ?r = "trace h eq m tr n (i + 1) (v_x1 l)"
    from stepped "1.prems" have "snd ?r = Some e" by simp
    from "1.IH" [OF stepped(1) stepped(2) this] have "body h eq m tr (entering (v_x1 l) (fst ?r)) = Inl e" .
    moreover have "entering x0 (l # fst ?r) = entering (v_x1 l) (fst ?r)"
      by (simp add: entering_def)
    ultimately show ?thesis using stepped by simp
  qed
qed

lemma trace_ok: "evaluator_ok h eq \<Longrightarrow> snd (trace h eq m tr n i x0) = None"
proof (induction h eq m tr n i x0 rule: trace.induct)
  case (1 h eq m tr n i x0)
  show ?case
  proof (cases h eq m tr n i x0 rule: trace_cases)
    case finished
    then show ?thesis by simp
  next
    case (thrown e)
    with body_ok [OF "1.prems", of m tr x0] show ?thesis by simp
  next
    case (stepped l)
    with "1.IH" [OF stepped(1) stepped(2) "1.prems"] show ?thesis by simp
  qed
qed

lemma trace_true_root:
  "snd (trace h eq m tr n i x0) = snd (trace h eq m tr' n i x0) \<and>
   map v_x1 (fst (trace h eq m tr n i x0)) = map v_x1 (fst (trace h eq m tr' n i x0))"
proof (induction h eq m tr n i x0 rule: trace.induct)
  case (1 h eq m tr n i x0)
  show ?case
  proof (cases h eq m tr n i x0 rule: trace_cases)
    case finished
    then show ?thesis by (simp add: trace_done)
  next
    case (thrown e)
    with body_true_root [of h eq m tr x0 tr'] have "body h eq m tr' x0 = Inl e"
      by (simp split: sum.splits)
    with thrown show ?thesis by (simp add: trace_throw)
  next
    case (stepped l)
    with body_true_root [of h eq m tr x0 tr'] obtain l' where
      l': "body h eq m tr' x0 = Inr l'" "v_x1 l' = v_x1 l"
      by (auto split: sum.splits)
    from "1.IH" [OF stepped(1) stepped(2)] stepped l' show ?thesis
      by (simp add: trace_step [OF stepped(1) l'(1)])
  qed
qed

lemma length_fmt_from: "length (fmt_from h m i ls) = length ls"
  by (induction ls arbitrary: i) auto

lemma nth_fmt_from:
  "k < length ls \<Longrightarrow> fmt_from h m i ls ! k = mk_result h m (i + int k) (ls ! k)"
proof (induction ls arbitrary: i k)
  case Nil
  then show ?case by simp
next
  case (Cons l ls)
  then show ?case by (cases k) (auto simp: algebra_simps)
qed

lemma loop_trace:
  "loop h eq m tr n i x0 acc =
     (case snd (trace h eq m tr n i x0) of
        None \<Rightarrow> Inr (acc @ fmt_from h m i (fst (trace h eq m tr n i x0)))
      | Some e \<Rightarrow> Inl e)"
proof (induction h eq m tr n i x0 acc rule: loop.induct)
  case (1 h eq m tr n i x0 acc)
  show ?case
  proof (cases h eq m tr n i x0 rule: trace_cases)
    case finished
    then show ?thesis by (simp add: loop.simps [of h eq m tr n i])
  next
    case (thrown e)
    then show ?thesis by (simp add: loop.simps [of h eq m tr n i])
  next
    case (stepped l)
    with "1.IH" [OF stepped(1) stepped(2)] show ?thesis
      by (simp add: loop.simps [of h eq m tr n i] split: option.splits)
  qed
qed

lemma trace_length:
  "snd (trace h eq m tr n i x0) = None \<Longrightarrow> length (fst (trace h eq m tr n i x0)) = nat (n - i)"
proof (induction h eq m tr n i x0 rule: trace.induct)
  case (1 h eq m tr n i x0)
  show ?case
  proof (cases h eq m tr n i x0 rule: trace_cases)
    case finished
    then show ?thesis by simp
  next
    case (thrown e)
    with "1.prems" show ?thesis by simp
  next
    case (stepped l)
    with "1.prems" have "snd (trace h eq m tr n (i + 1) (v_x1 l)) = None" by simp
    from "1.IH" [OF stepped(1) stepped(2) this] stepped show ?thesis
      by (simp add: nat_diff_distrib Suc_nat_eq_nat_zadd1 flip: Suc_diff_le)
  qed
qed

lemma trace_stop_early:
  assumes "int (length (fst (trace h eq m tr n i x0))) < n - i"
  shows "\<exists>e. snd (trace h eq m tr n i x0) = Some e"
proof (cases "snd (trace h eq m tr n i x0)")
  case None
  from trace_length [OF this] assms show ?thesis by linarith
next
  case (Some e)
  then show ?thesis by simp
qed

lemma not_finite_onwards:
  assumes ls: "ls = fst (trace h eq m tr n i x0)"
    and "k \<le> j" and "j < length ls" and "\<not> is_finite (v_x1 (ls ! k))"
  shows "\<not> is_finite (v_x1 (ls ! j))"
  using assms(2-)
proof (induction j)
  case 0
  then show ?case by simp
next
  case (Suc j)
  show ?case
  proof (cases "k = Suc j")
    case True
    with Suc.prems show ?thesis by simp
  next
    case False
    with Suc have prev: "\<not> is_finite (v_x1 (ls ! j))" by simp
    from Suc.prems trace_chain [of j h eq m tr n i x0] ls
    have "v_x0 (ls ! Suc j) = v_x1 (ls ! j)" by simp
    moreover from Suc.prems ls have "body h eq m tr (v_x0 (ls ! Suc j)) = Inr (ls ! Suc j)"
      by (intro trace_body [of _ h eq m tr n i x0]) simp
    ultimately show ?thesis using prev body_Inr(5) next_x_not_finite by metis
  qed
qed

lemma trace_length_less:
  "snd (trace h eq m tr n i x0) = Some e \<Longrightarrow> int (length (fst (trace h eq m tr n i x0))) < n - i"
proof (induction h eq m tr n i x0 rule: trace.induct)
  case (1 h eq m tr n i x0)
  show ?case
  proof (cases h eq m tr n i x0 rule: trace_cases)
    case finished
    with "1.prems" show ?thesis by simp
  next
    case (thrown e')
    then show ?thesis by simp
  next
    case (stepped l)
    with "1.prems" have "snd (trace h eq m tr n (i + 1) (v_x1 l)) = Some e" by simp
    from "1.IH" [OF stepped(1) stepped(2) this] stepped show ?thesis by simp
  qed
qed

lemma trace_not_finite:
  "\<not> is_finite x0 \<Longrightarrow> l \<in> set (fst (trace h eq m tr n i x0)) \<Longrightarrow>
   \<not> is_finite (v_x0 l) \<and> \<not> is_finite (v_x1 l)"
proof (induction h eq m tr n i x0 rule: trace.induct)
  case (1 h eq m tr n i x0)
  show ?case
  proof (cases h eq m tr n i x0 rule: trace_cases)
    case finished
    with "1.prems" show ?thesis by simp
  next
    case (thrown e)
    with "1.prems" show ?thesis by simp
  next
    case (stepped l')
    from body_Inr(1,5) [OF stepped(2)] "1.prems"(1)
    have l': "\<not> is_finite (v_x0 l')" "\<not> is_finite (v_x1 l')"
      by (simp_all add: next_x_not_finite)
    show ?thesis
    proof (cases "l = l'")
      case True
      with l' show ?thesis by simp
    next
      case False
      with stepped "1.prems" have "l \<in> set (fst (trace h eq m tr n (i + 1) (v_x1 l')))" by simp
      from "1.IH" [OF stepped(1) stepped(2) l'(2) this] show ?thesis .
    qed
  qed
qed

lemma entering_not_finite:
  assumes "\<not> is_finite x0"
  shows "\<not> is_finite (entering x0 (fst (trace h eq m tr n i x0)))"
proof (cases "fst (trace h eq m tr n i x0) = []")
  case True
  with assms show ?thesis by (simp add: entering_def)
next
  case False
  then have "last (fst (trace h eq m tr n i x0)) \<in> set (fst (trace h eq m tr n i x0))" by simp
  from trace_not_finite [OF assms this] False show ?thesis by (simp add: entering_def)
qed

subsection \<open>The run and the handler\<close>

lemma run_trace_eq:
  "run h st =
     (case snd (run_trace h st) of
        None \<Rightarrow> Inr (fmt_from h (sel_method st) 0 (fst (run_trace h st)))
      | Some e \<Rightarrow> Inl e)"
  by (simp add: run_def run_trace_def loop_trace split: option.splits)

lemma run_records:
  assumes "run h st = Inr rs"
  shows "snd (run_trace h st) = None"
    and "rs = fmt_from h (sel_method st) 0 (fst (run_trace h st))"
    and "length (fst (run_trace h st)) = length rs"
  using assms by (auto simp: run_trace_eq length_fmt_from split: option.splits)

lemma run_nth:
  assumes "run h st = Inr rs" and "k < length rs"
  shows "rs ! k = mk_result h (sel_method st) (int k) (fst (run_trace h st) ! k)"
    and "body h (equation st) (sel_method st) (trueRootValue (trueRoot st))
           (v_x0 (fst (run_trace h st) ! k)) = Inr (fst (run_trace h st) ! k)"
proof -
  from run_records [OF assms(1)] assms(2) have k: "k < length (fst (run_trace h st))" by simp
  with run_records(2) [OF assms(1)] show "rs ! k = mk_result h (sel_method st) (int k) (fst (run_trace h st) ! k)"
    by (simp add: nth_fmt_from)
  from k have "fst (run_trace h st) ! k \<in> set (fst (run_trace h st))" by simp
  then show "body h (equation st) (sel_method st) (trueRootValue (trueRoot st))
           (v_x0 (fst (run_trace h st) ! k)) = Inr (fst (run_trace h st) ! k)"
    unfolding run_trace_def by (rule trace_body)
qed

lemma run_trace_ok: "evaluator_ok h (equation st) \<Longrightarrow> snd (run_trace h st) = None"
  unfolding run_trace_def by (rule trace_ok)

lemma run_trace_length:
  "snd (run_trace h st) = None \<Longrightarrow> length (fst (run_trace h st)) = nat (iterations st)"
  unfolding run_trace_def using trace_length [of h _ _ _ "iterations st" 0] by simp

lemma run_success:
  assumes "snd (run_trace h st) = None"
  shows "run h st = Inr (fmt_from h (sel_method st) 0 (fst (run_trace h st)))"
    and "calculateNewtonRaphson h st =
           st\<lparr>loading := False, error := [], results := fmt_from h (sel_method st) 0 (fst (run_trace h st))\<rparr>"
    and "length (fmt_from h (sel_method st) 0 (fst (run_trace h st))) = nat (iterations st)"
  using assms run_trace_length [OF assms]
  by (simp_all add: run_trace_eq calculateNewtonRaphson_def length_fmt_from)

lemma run_failure:
  assumes "snd (run_trace h st) = Some msg"
  shows "run h st = Inl msg"
    and "calculateNewtonRaphson h st = st\<lparr>loading := False, error := ''Error: '' @ msg\<rparr>"
  using assms by (simp_all add: run_trace_eq calculateNewtonRaphson_def)

lemma run_trace_stop:
  assumes "snd (run_trace h st) = Some msg"
  shows "body h (equation st) (sel_method st) (trueRootValue (trueRoot st))
           (entering (parseFloat (initialGuess st)) (fst (run_trace h st))) = Inl msg"
    and "int (length (fst (run_trace h st))) < iterations st"
  using assms trace_stop [of h "equation st" "sel_method st" "trueRootValue (trueRoot st)"
      "iterations st" 0 "parseFloat (initialGuess st)" msg]
    trace_length_less [of h "equation st" "sel_method st" "trueRootValue (trueRoot st)"
      "iterations st" 0 "parseFloat (initialGuess st)" msg]
  by (simp_all add: run_trace_def)

lemma run_trace_stop_early:
  "int (length (fst (run_trace h st))) < iterations st \<Longrightarrow> \<exists>e. snd (run_trace h st) = Some e"
  unfolding run_trace_def by (rule trace_stop_early) simp

lemma run_trace_body:
  "l \<in> set (fst (run_trace h st)) \<Longrightarrow>
   body h (equation st) (sel_method st) (trueRootValue (trueRoot st)) (v_x0 l) = Inr l"
  unfolding run_trace_def by (rule trace_body)

lemma run_trace_true_root:
  "snd (run_trace h (st\<lparr>trueRoot := text\<rparr>)) = snd (run_trace h st)"
  "map v_x1 (fst (run_trace h (st\<lparr>trueRoot := text\<rparr>))) = map v_x1 (fst (run_trace h st))"
  using trace_true_root [of h "equation st" "sel_method st" "trueRootValue text" "iterations st" 0
      "parseFloat (initialGuess st)" "trueRootValue (trueRoot st)"]
  by (simp_all add: run_trace_def)

lemma error_true_root:
  "error (calculateNewtonRaphson h (st\<lparr>trueRoot := text\<rparr>)) = error (calculateNewtonRaphson h st)"
proof (cases "snd (run_trace h st)")
  case None
  then have "snd (run_trace h (st\<lparr>trueRoot := text\<rparr>)) = None" by (simp add: run_trace_true_root)
  from run_success(2) [OF this] run_success(2) [OF None] show ?thesis by simp
next
  case (Some e)
  then have "snd (run_trace h (st\<lparr>trueRoot := text\<rparr>)) = Some e" by (simp add: run_trace_true_root)
  from run_failure(2) [OF this] run_failure(2) [OF Some] show ?thesis by simp
qed

lemma next_x_finite:
  "b \<noteq> 0 \<Longrightarrow> next_x Standard (Fin x) (Fin a) (Fin b) w = Fin (x - a / b)"
  "b * b - a * c \<noteq> 0 \<Longrightarrow>
   next_x Modified (Fin x) (Fin a) (Fin b) (Fin c) = Fin (x - a * b / (b * b - a * c))"
  by (auto simp: next_x_def js_simps Let_def)

lemma Math_pow2_values:
  "Math_pow2 (Fin r) = Fin (r * r)" "Math_pow2 NegZero = Fin 0" "Math_pow2 PInf = PInf"
  "Math_pow2 NInf = PInf" "Math_pow2 NaN = NaN"
  by (auto simp: js_simps)

lemma calls_Inr:
  "f h eq x = Inr a \<longleftrightarrow> evaluate h eq x = Inr a"
  "fPrime h eq x = Inr b \<longleftrightarrow> (\<exists>d. derivative h eq ''x'' = Inr d \<and> evaluate h d x = Inr b)"
  "fDoublePrime h eq x = Inr c \<longleftrightarrow>
     (\<exists>d dd. derivative h eq ''x'' = Inr d \<and> derivative h d ''x'' = Inr dd \<and> evaluate h dd x = Inr c)"
  by (auto simp: f_def fPrime_def fDoublePrime_def split: sum.splits)

lemma calls_Inl:
  "fDoublePrime h eq x = Inl msg \<longleftrightarrow>
     derivative h eq ''x'' = Inl msg
     \<or> (\<exists>d. derivative h eq ''x'' = Inr d
           \<and> (derivative h d ''x'' = Inl msg
                \<or> (\<exists>dd. derivative h d ''x'' = Inr dd \<and> evaluate h dd x = Inl msg)))"
  by (auto simp: fDoublePrime_def split: sum.splits)

lemma run_trace_first_pass:
  assumes "0 < iterations st"
    and "body h (equation st) (sel_method st) (trueRootValue (trueRoot st))
           (parseFloat (initialGuess st)) = Inr l"
  shows "fst (run_trace h st) \<noteq> []" and "hd (fst (run_trace h st)) = l"
  using trace_step [OF assms(1) assms(2)] by (simp_all add: run_trace_def)

lemma loop_p0_step:
  "i < n \<Longrightarrow> body_p0 h eq m x = Inr l \<Longrightarrow>
   loop_p0 h eq m n i x acc = loop_p0 h eq m n (i + 1) (w_x1 l) (acc @ [mk_result_p0 h m i l])"
  by (simp add: loop_p0.simps [of h eq m n i])

lemma body_p0_rounds:
  "body_p0 h eq m x = Inr l \<Longrightarrow>
   w_x1 l = parseFloat (toFixed2 (Number_toString h) (w_x1_first l))"
  by (auto simp: body_p0_def Let_def split: sum.splits)

lemma run_trace_chain:
  "Suc k < length (fst (run_trace h st)) \<Longrightarrow>
   v_x0 (fst (run_trace h st) ! Suc k) = v_x1 (fst (run_trace h st) ! k)"
  unfolding run_trace_def by (rule trace_chain)

lemma run_trace_inputs:
  assumes "equation st' = equation st" "initialGuess st' = initialGuess st"
    "iterations st' = iterations st" "sel_method st' = sel_method st" "trueRoot st' = trueRoot st"
  shows "run_trace h st' = run_trace h st" and "run h st' = run h st"
  using assms by (simp_all add: run_trace_def run_def)

subsection \<open>The examples, evaluated\<close>

lemmas host_calls = f_def fPrime_def fDoublePrime_def next_x_def calculateError_def
  trueRootValue_def or_zero_def

lemmas parse_defs = parseFloat_def unsigned_literal_def literal_value_def is_space_def is_digit_def digits_val_def
  digit_val_def scale10_def exponent_part_def

lemmas example_hosts = example_host_def throws_at_zero_def no_second_derivative_def
  cubic_host_def second_derivative_fails_at_def

lemma parse_values:
  "parseFloat [] = NaN" "parseFloat ''abc'' = NaN" "parseFloat ''Infinity'' = PInf"
  "parseFloat ''0'' = Fin 0" "parseFloat ''2'' = Fin 2" "parseFloat ''3'' = Fin 3"
  "parseFloat ''5.00'' = Fin 5" "parseFloat ''6.00'' = Fin 6" "parseFloat ''2.00'' = Fin 2"
  "parseFloat ''2.17'' = Fin (217 / 100)" "parseFloat ''0.71'' = Fin (71 / 100)"
  "parseFloat ''4.34'' = Fin (217 / 50)" "parseFloat ''2.01'' = Fin (201 / 100)"
  "parseFloat ''0.04'' = Fin (1 / 25)" "parseFloat ''4.02'' = Fin (201 / 50)"
  "parseFloat ''1e400'' = PInf" "parseFloat ''-1e400'' = NInf" "parseFloat ''1e-400'' = Fin 0"
  by (simp_all add: parse_defs mk_inf_def mk_zero_def Let_def)

lemma fixed_values:
  "toFixed2 big NaN = ''NaN''" "toFixed2 big PInf = ''Infinity''" "toFixed2 big NInf = ''-Infinity''"
  "toFixed2 big (Fin 0) = ''0.00''" "toFixed2 big (Fin 2) = ''2.00''" "toFixed2 big (Fin 3) = ''3.00''"
  "toFixed2 big (Fin 5) = ''5.00''" "toFixed2 big (Fin 6) = ''6.00''"
  "toFixed2 big (Fin (13 / 6)) = ''2.17''" "toFixed2 big (Fin (313 / 156)) = ''2.01''"
  "toFixed2 big (Fin (195313 / 97656)) = ''2.00''"
  "toFixed2 big (Fin (25 / 36)) = ''0.69''" "toFixed2 big (Fin (625 / 24336)) = ''0.03''"
  "toFixed2 big (Fin (13 / 3)) = ''4.33''" "toFixed2 big (Fin (313 / 78)) = ''4.01''"
  "toFixed2 big (Fin (500 / 13)) = ''38.46''" "toFixed2 big (Fin (2500 / 313)) = ''7.99''"
  "toFixed2 big (Fin (62500 / 195313)) = ''0.32''"
  "toFixed2 big (Fin (25 / 3)) = ''8.33''" "toFixed2 big (Fin (25 / 78)) = ''0.32''"
  "toFixed2 big (Fin (25 / 48828)) = ''0.00''"
  "toFixed2 big (Fin (217 / 100)) = ''2.17''" "toFixed2 big (Fin (201 / 100)) = ''2.01''"
  "toFixed2 big (Fin (71 / 100)) = ''0.71''" "toFixed2 big (Fin (217 / 50)) = ''4.34''"
  "toFixed2 big (Fin (1 / 25)) = ''0.04''" "toFixed2 big (Fin (201 / 50)) = ''4.02''"
  "toFixed2 big (Fin (87089 / 43400)) = ''2.01''" "toFixed2 big (Fin (80401 / 40200)) = ''2.00''"
  "toFixed2 big (Fin (8300 / 217)) = ''38.25''" "toFixed2 big (Fin (1600 / 201)) = ''7.96''"
  "toFixed2 big (Fin (1 / 2)) = ''0.50''"
  "toFixed2 big (Fin (7089 / 10000)) = ''0.71''" "toFixed2 big (Fin (401 / 10000)) = ''0.04''"
  by (simp_all add: toFixed2_def digits.simps digit_char_def Let_def)

lemma scenario_A_trace:
  "run_trace example_host scenario_A =
     ([\<lparr>v_x0 = Fin 3, v_fx = Fin 5, v_fpx = Fin 6, v_fppx = Fin 2, v_x1 = Fin (13 / 6),
        v_et = Fin (25 / 3), v_ea = Fin (500 / 13)\<rparr>,
       \<lparr>v_x0 = Fin (13 / 6), v_fx = Fin (25 / 36), v_fpx = Fin (13 / 3), v_fppx = Fin 2,
        v_x1 = Fin (313 / 156), v_et = Fin (25 / 78), v_ea = Fin (2500 / 313)\<rparr>,
       \<lparr>v_x0 = Fin (313 / 156), v_fx = Fin (625 / 24336), v_fpx = Fin (313 / 78), v_fppx = Fin 2,
        v_x1 = Fin (195313 / 97656), v_et = Fin (25 / 48828), v_ea = Fin (62500 / 195313)\<rparr>],
      None)"
  by (simp add: scenario_A_def example_state_def run_trace_def trace.simps body_def host_calls example_hosts js_simps parse_values Let_def)

lemma example_host_ok: "evaluator_ok example_host ''x^2 - 4''" "evaluator_ok example_host ''x''"
  by (simp_all add: evaluator_ok_def f_def fPrime_def fDoublePrime_def example_host_def)

lemma scenario_A_no_root_trace:
  "run_trace example_host scenario_A_no_root =
     ([\<lparr>v_x0 = Fin 3, v_fx = Fin 5, v_fpx = Fin 6, v_fppx = Fin 2, v_x1 = Fin (13 / 6),
        v_et = PInf, v_ea = Fin (500 / 13)\<rparr>,
       \<lparr>v_x0 = Fin (13 / 6), v_fx = Fin (25 / 36), v_fpx = Fin (13 / 3), v_fppx = Fin 2,
        v_x1 = Fin (313 / 156), v_et = PInf, v_ea = Fin (2500 / 313)\<rparr>,
       \<lparr>v_x0 = Fin (313 / 156), v_fx = Fin (625 / 24336), v_fpx = Fin (313 / 78), v_fppx = Fin 2,
        v_x1 = Fin (195313 / 97656), v_et = PInf, v_ea = Fin (62500 / 195313)\<rparr>],
      None)"
  by (simp add: scenario_A_no_root_def example_state_def run_trace_def trace.simps body_def host_calls example_hosts js_simps parse_values Let_def)

lemma scenario_A_records:
  "map ir_x_next (fmt_from example_host Standard 0 (fst (run_trace example_host scenario_A))) = [''2.17'', ''2.01'', ''2.00'']"
  "map ir_error (fmt_from example_host Standard 0 (fst (run_trace example_host scenario_A))) = [''38.46%'', ''7.99%'', ''0.32%'']"
  "map ir_et (fmt_from example_host Standard 0 (fst (run_trace example_host scenario_A))) = [''8.33%'', ''0.32%'', ''0.00%'']"
  by (simp_all add: scenario_A_trace mk_result_fields fixed_values)

lemma scenario_A_no_root_records:
  "map ir_et (fmt_from example_host Standard 0 (fst (run_trace example_host scenario_A_no_root))) = [''Infinity%'', ''Infinity%'', ''Infinity%'']"
  by (simp_all add: scenario_A_no_root_trace mk_result_fields fixed_values)

lemma scenario_methods:
  "sel_method scenario_A = Standard" "sel_method scenario_A_no_root = Standard"
  "trueRoot scenario_A = ''2''" "trueRoot scenario_A_no_root = []"
  by (simp_all add: scenario_A_def scenario_A_no_root_def example_state_def)

lemma true_root_values: "trueRootValue [] = Fin 0" "trueRootValue ''2'' = Fin 2" "parseFloat ''2'' = Fin 2"
  by (simp_all add: trueRootValue_def or_zero_def is_zero_def is_nan_def parse_values)

lemma anomaly_trace:
  "run_trace example_host anomaly =
     ([\<lparr>v_x0 = Fin 0, v_fx = Fin 0, v_fpx = Fin 1, v_fppx = Fin 0, v_x1 = Fin 0,
        v_et = NaN, v_ea = NaN\<rparr>,
       \<lparr>v_x0 = Fin 0, v_fx = Fin 0, v_fpx = Fin 1, v_fppx = Fin 0, v_x1 = Fin 0,
        v_et = NaN, v_ea = NaN\<rparr>,
       \<lparr>v_x0 = Fin 0, v_fx = Fin 0, v_fpx = Fin 1, v_fppx = Fin 0, v_x1 = Fin 0,
        v_et = NaN, v_ea = NaN\<rparr>],
      None)"
  by (simp add: anomaly_def example_state_def run_trace_def trace.simps body_def host_calls example_hosts js_simps parse_values Let_def)

lemma anomaly_records:
  "map ir_x_next (fmt_from example_host Standard 0 (fst (run_trace example_host anomaly))) = [''0.00'', ''0.00'', ''0.00'']"
  "map ir_error (fmt_from example_host Standard 0 (fst (run_trace example_host anomaly))) = [''NaN%'', ''NaN%'', ''NaN%'']"
  by (simp_all add: anomaly_trace mk_result_fields fixed_values)

lemma flat_start_trace:
  "run_trace example_host flat_start =
     ([\<lparr>v_x0 = Fin 0, v_fx = Fin (- 4), v_fpx = Fin 0, v_fppx = Fin 2, v_x1 = PInf,
        v_et = PInf, v_ea = NaN\<rparr>,
       \<lparr>v_x0 = PInf, v_fx = PInf, v_fpx = PInf, v_fppx = Fin 2, v_x1 = NaN,
        v_et = NaN, v_ea = NaN\<rparr>,
       \<lparr>v_x0 = NaN, v_fx = NaN, v_fpx = NaN, v_fppx = Fin 2, v_x1 = NaN,
        v_et = NaN, v_ea = NaN\<rparr>],
      None)"
  by (simp add: flat_start_def example_state_def run_trace_def trace.simps body_def host_calls example_hosts js_simps parse_values Let_def)

lemma flat_start_records:
  "map ir_x_next (fmt_from example_host Standard 0 (fst (run_trace example_host flat_start))) = [''Infinity'', ''NaN'', ''NaN'']"
  by (simp_all add: flat_start_trace mk_result_fields fixed_values)

lemma more_scenario_fields:
  "sel_method anomaly = Standard" "equation anomaly = ''x''" "iterations anomaly = 3"
  "sel_method flat_start = Standard" "equation flat_start = ''x^2 - 4''" "iterations flat_start = 3"
  by (simp_all add: anomaly_def flat_start_def example_state_def)

lemma throws_trace:
  "run_trace (throws_at_zero ''boom'') identity_from_3 =
     ([\<lparr>v_x0 = Fin 3, v_fx = Fin 3, v_fpx = Fin 1, v_fppx = Fin 0, v_x1 = Fin 0,
        v_et = NaN, v_ea = PInf\<rparr>],
      Some ''boom'')"
  by (simp add: identity_from_3_def example_state_def run_trace_def trace.simps body_def host_calls example_hosts js_simps parse_values Let_def)

lemma no_second_derivative_calls:
  "f (no_second_derivative ''boom'') ''x^2 - 4'' (Fin 3) = Inr (Fin 5)"
  "fPrime (no_second_derivative ''boom'') ''x^2 - 4'' (Fin 3) = Inr (Fin 6)"
  "fDoublePrime (no_second_derivative ''boom'') ''x^2 - 4'' (Fin 3) = Inl ''boom''"
  by (simp_all add: host_calls example_hosts js_simps)

lemma no_second_derivative_trace:
  "run_trace (no_second_derivative ''boom'') scenario_A_no_root = ([], Some ''boom'')"
  by (simp add: scenario_A_no_root_def example_state_def run_trace_def trace.simps body_def host_calls example_hosts js_simps parse_values Let_def)

lemma identity_from_3_fields:
  "equation identity_from_3 = ''x''" "initialGuess identity_from_3 = ''3''" "iterations identity_from_3 = 3"
  "sel_method identity_from_3 = Standard" "results identity_from_3 = []"
  by (simp_all add: identity_from_3_def example_state_def)

lemma scenario_A_no_root_fields:
  "equation scenario_A_no_root = ''x^2 - 4''" "initialGuess scenario_A_no_root = ''3''"
  "iterations scenario_A_no_root = 3" "results scenario_A_no_root = []"
  by (simp_all add: scenario_A_no_root_def example_state_def)

lemma bad_guess_trace:
  "run_trace example_host bad_guess =
     ([\<lparr>v_x0 = NaN, v_fx = NaN, v_fpx = Fin 1, v_fppx = Fin 0, v_x1 = NaN, v_et = NaN, v_ea = NaN\<rparr>,
       \<lparr>v_x0 = NaN, v_fx = NaN, v_fpx = Fin 1, v_fppx = Fin 0, v_x1 = NaN, v_et = NaN, v_ea = NaN\<rparr>],
      None)"
  by (simp add: bad_guess_def example_state_def run_trace_def trace.simps body_def host_calls example_hosts js_simps parse_values Let_def)

lemma bad_guess_records:
  "map ir_x (fmt_from example_host Standard 0 (fst (run_trace example_host bad_guess))) = [''NaN'', ''NaN'']"
  "map ir_x_next (fmt_from example_host Standard 0 (fst (run_trace example_host bad_guess))) = [''NaN'', ''NaN'']"
  by (simp_all add: bad_guess_trace mk_result_fields fixed_values)

lemma bad_guess_fields:
  "equation bad_guess = ''x''" "initialGuess bad_guess = ''abc''" "iterations bad_guess = 2"
  "sel_method bad_guess = Standard"
  by (simp_all add: bad_guess_def example_state_def)

lemma bad_guess_state:
  "calculateNewtonRaphson example_host bad_guess =
     bad_guess\<lparr>loading := False, error := [],
       results := fmt_from example_host Standard 0 (fst (run_trace example_host bad_guess))\<rparr>"
  using run_success(2) [of example_host bad_guess] by (simp add: bad_guess_trace bad_guess_fields)

lemma scenario_A_inf_root_trace:
  "run_trace example_host scenario_A_inf_root =
     ([\<lparr>v_x0 = Fin 3, v_fx = Fin 5, v_fpx = Fin 6, v_fppx = Fin 2, v_x1 = Fin (13 / 6),
        v_et = NaN, v_ea = Fin (500 / 13)\<rparr>,
       \<lparr>v_x0 = Fin (13 / 6), v_fx = Fin (25 / 36), v_fpx = Fin (13 / 3), v_fppx = Fin 2,
        v_x1 = Fin (313 / 156), v_et = NaN, v_ea = Fin (2500 / 313)\<rparr>,
       \<lparr>v_x0 = Fin (313 / 156), v_fx = Fin (625 / 24336), v_fpx = Fin (313 / 78), v_fppx = Fin 2,
        v_x1 = Fin (195313 / 97656), v_et = NaN, v_ea = Fin (62500 / 195313)\<rparr>],
      None)"
  by (simp add: scenario_A_inf_root_def example_state_def run_trace_def trace.simps body_def host_calls example_hosts js_simps parse_values Let_def)

lemma scenario_A_inf_root_records:
  "map ir_et (fmt_from example_host Standard 0 (fst (run_trace example_host scenario_A_inf_root))) = [''NaN%'', ''NaN%'', ''NaN%'']"
  by (simp add: scenario_A_inf_root_trace mk_result_fields fixed_values)

lemma scenario_A_inf_root_fields:
  "sel_method scenario_A_inf_root = Standard" "trueRoot scenario_A_inf_root = ''Infinity''"
  by (simp_all add: scenario_A_inf_root_def example_state_def)

lemma inf_root_state:
  "results (calculateNewtonRaphson example_host scenario_A_inf_root) =
     fmt_from example_host Standard 0 (fst (run_trace example_host scenario_A_inf_root))"
  using run_success(2) [of example_host scenario_A_inf_root]
  by (simp add: scenario_A_inf_root_trace scenario_A_inf_root_fields)

lemma no_root_state:
  "results (calculateNewtonRaphson example_host scenario_A_no_root) =
     fmt_from example_host Standard 0 (fst (run_trace example_host scenario_A_no_root))"
  using run_success(2) [of example_host scenario_A_no_root]
  by (simp add: scenario_A_no_root_trace scenario_methods)

lemma body_p0_passes:
  "body_p0 example_host ''x^2 - 4'' Standard (Fin 3) =
     Inr \<lparr>w_x0 = Fin 3, w_fx = Fin 5, w_fpx = Fin 6, w_fppx = Fin 2,
          w_x1_first = Fin (13 / 6), w_x1 = Fin (217 / 100), w_et = Fin (8300 / 217)\<rparr>"
  "body_p0 example_host ''x^2 - 4'' Standard (Fin (217 / 100)) =
     Inr \<lparr>w_x0 = Fin (217 / 100), w_fx = Fin (71 / 100), w_fpx = Fin (217 / 50), w_fppx = Fin 2,
          w_x1_first = Fin (87089 / 43400), w_x1 = Fin (201 / 100), w_et = Fin (1600 / 201)\<rparr>"
  "body_p0 example_host ''x^2 - 4'' Standard (Fin (201 / 100)) =
     Inr \<lparr>w_x0 = Fin (201 / 100), w_fx = Fin (1 / 25), w_fpx = Fin (201 / 50), w_fppx = Fin 2,
          w_x1_first = Fin (80401 / 40200), w_x1 = Fin 2, w_et = Fin (1 / 2)\<rparr>"
  by (simp_all add: body_p0_def host_calls example_hosts js_simps fixed_values parse_values Let_def)

lemma run_p0_scenario_A:
  "run_p0 example_host scenario_A_p0 =
     Inr [mk_result_p0 example_host Standard 0
            \<lparr>w_x0 = Fin 3, w_fx = Fin 5, w_fpx = Fin 6, w_fppx = Fin 2,
             w_x1_first = Fin (13 / 6), w_x1 = Fin (217 / 100), w_et = Fin (8300 / 217)\<rparr>,
          mk_result_p0 example_host Standard 1
            \<lparr>w_x0 = Fin (217 / 100), w_fx = Fin (71 / 100), w_fpx = Fin (217 / 50), w_fppx = Fin 2,
             w_x1_first = Fin (87089 / 43400), w_x1 = Fin (201 / 100), w_et = Fin (1600 / 201)\<rparr>,
          mk_result_p0 example_host Standard 2
            \<lparr>w_x0 = Fin (201 / 100), w_fx = Fin (1 / 25), w_fpx = Fin (201 / 50), w_fppx = Fin 2,
             w_x1_first = Fin (80401 / 40200), w_x1 = Fin 2, w_et = Fin (1 / 2)\<rparr>]"
  by (simp add: run_p0_def scenario_A_p0_def example_state_p0_def loop_p0.simps body_p0_passes
      parse_values)

lemma scenario_A_state:
  "results (calculateNewtonRaphson example_host scenario_A) =
     fmt_from example_host Standard 0 (fst (run_trace example_host scenario_A))"
  using run_success(2) [of example_host scenario_A]
  by (simp add: scenario_A_trace scenario_methods)

lemma scenario_A_shown:
  "map ir_x (fmt_from example_host Standard 0 (fst (run_trace example_host scenario_A))) = [''3.00'', ''2.17'', ''2.01'']"
  "map ir_fx (fmt_from example_host Standard 0 (fst (run_trace example_host scenario_A))) = [''5.00'', ''0.69'', ''0.03'']"
  "map ir_fpx (fmt_from example_host Standard 0 (fst (run_trace example_host scenario_A))) = [''6.00'', ''4.33'', ''4.01'']"
  by (simp_all add: scenario_A_trace mk_result_fields fixed_values)

lemma scenario_B_trace:
  "run_trace cubic_host scenario_B =
     ([\<lparr>v_x0 = Fin (- 1), v_fx = Fin 90, v_fpx = Fin 12, v_fppx = Fin (- 132),
        v_x1 = Fin (- (182 / 167)), v_et = PInf, v_ea = Fin (750 / 91)\<rparr>,
       \<lparr>v_x0 = Fin (- (182 / 167)), v_fx = Fin (411631200 / 4657463),
        v_fpx = Fin (673428 / 27889), v_fppx = Fin (- (23124 / 167)),
        v_x1 = Fin (- (86997664306 / 69250452361)), v_et = PInf,
        v_ea = Fin (13750197210000 / 1037757852793)\<rparr>],
      None)"
proof -
  have "parseFloat ''-1'' = Fin (- 1)"
    by (simp add: parse_defs mk_inf_def mk_zero_def Let_def)
  then show ?thesis
    by (simp add: scenario_B_def example_state_def run_trace_def trace.simps body_def host_calls
        example_hosts js_simps parse_values Let_def)
qed

lemma scenario_B_fields:
  "sel_method scenario_B = Modified" "equation scenario_B = ''12*x^3 - 30*x^2 - 84*x + 48''"
  by (simp_all add: scenario_B_def example_state_def)

lemma scenario_B_shown:
  "toFixed2 big (Fin (- 132)) = ''-132.00''" "toFixed2 big (Fin (- (182 / 167))) = ''-1.09''"
  by (simp_all add: toFixed2_def digits.simps digit_char_def Let_def)

lemma fails_at_trace:
  "run_trace (second_derivative_fails_at (Fin (13 / 6)) ''boom'') scenario_A_no_root =
     ([\<lparr>v_x0 = Fin 3, v_fx = Fin 5, v_fpx = Fin 6, v_fppx = Fin 2, v_x1 = Fin (13 / 6),
        v_et = PInf, v_ea = Fin (500 / 13)\<rparr>],
      Some ''boom'')"
  by (simp add: scenario_A_no_root_def example_state_def run_trace_def trace.simps body_def
      host_calls example_hosts js_simps parse_values Let_def)

lemma fails_at_calls:
  "evaluate (second_derivative_fails_at (Fin (13 / 6)) ''boom'') ''x^2 - 4'' (Fin (13 / 6)) = Inr (Fin (25 / 36))"
  "derivative (second_derivative_fails_at (Fin (13 / 6)) ''boom'') ''x^2 - 4'' ''x'' = Inr ''2 * x''"
  "evaluate (second_derivative_fails_at (Fin (13 / 6)) ''boom'') ''2 * x'' (Fin (13 / 6)) = Inr (Fin (13 / 3))"
  "derivative (second_derivative_fails_at (Fin (13 / 6)) ''boom'') ''2 * x'' ''x'' = Inr ''2''"
  "evaluate (second_derivative_fails_at (Fin (13 / 6)) ''boom'') ''2'' (Fin (13 / 6)) = Inl ''boom''"
  "evaluate (second_derivative_fails_at (Fin (13 / 6)) ''boom'') ''2'' (Fin 3) = Inr (Fin 2)"
  by (simp_all add: example_hosts js_simps)

lemma huge_guess_trace:
  "run_trace example_host huge_guess =
     ([\<lparr>v_x0 = PInf, v_fx = PInf, v_fpx = Fin 1, v_fppx = Fin 0, v_x1 = NaN, v_et = NaN, v_ea = NaN\<rparr>,
       \<lparr>v_x0 = NaN, v_fx = NaN, v_fpx = Fin 1, v_fppx = Fin 0, v_x1 = NaN, v_et = NaN, v_ea = NaN\<rparr>],
      None)"
  by (simp add: huge_guess_def example_state_def run_trace_def trace.simps body_def host_calls
      example_hosts js_simps parse_values Let_def)

lemma huge_guess_fields:
  "equation huge_guess = ''x''" "initialGuess huge_guess = ''1e400''" "iterations huge_guess = 2"
  "sel_method huge_guess = Standard"
  by (simp_all add: huge_guess_def example_state_def)

section \<open>The claims\<close>

text \<open>
  C1. Every record of a run comes from a pass whose next iterate is the update formula of
  the selected method applied to the entering iterate as the loop holds it, unrounded:
  \<open>x - f(x)/f'(x)\<close> under Standard and
  \<open>x - (f(x) * f'(x)) / (f'(x)^2 - f(x) * f''(x))\<close> under Modified. Here \<open>f(x)\<close> is
  what the evaluator returned for the expression at that iterate, \<open>f'(x)\<close> what it
  returned for the derivative of the expression, and \<open>f''(x)\<close> what it returned for
  the derivative of that derivative, each at the same iterate; the square is the product
  of \<open>f'(x)\<close> with itself. For finite values and a nonzero denominator the next iterate
  is the number the formula denotes. The record shows both iterates through \<open>toFixed(2)\<close>.
\<close>

theorem update_law:
  assumes "run h st = Inr rs" and "k < length rs"
  shows "let l = fst (run_trace h st) ! k in
           rs ! k = mk_result h (sel_method st) (int k) l
         \<and> evaluate h (equation st) (v_x0 l) = Inr (v_fx l)
         \<and> (\<exists>d dd. derivative h (equation st) ''x'' = Inr d
                \<and> evaluate h d (v_x0 l) = Inr (v_fpx l)
                \<and> derivative h d ''x'' = Inr dd
                \<and> evaluate h dd (v_x0 l) = Inr (v_fppx l))
         \<and> (sel_method st = Standard \<longrightarrow> v_x1 l = js_sub (v_x0 l) (js_div (v_fx l) (v_fpx l)))
         \<and> (sel_method st = Modified \<longrightarrow>
              v_x1 l = js_sub (v_x0 l)
                (js_div (js_mul (v_fx l) (v_fpx l))
                   (js_sub (js_mul (v_fpx l) (v_fpx l)) (js_mul (v_fx l) (v_fppx l)))))
         \<and> (\<forall>x a b c. v_x0 l = Fin x \<and> v_fx l = Fin a \<and> v_fpx l = Fin b \<and> v_fppx l = Fin c \<longrightarrow>
                (sel_method st = Standard \<and> b \<noteq> 0 \<longrightarrow> v_x1 l = Fin (x - a / b))
              \<and> (sel_method st = Modified \<and> b * b - a * c \<noteq> 0 \<longrightarrow>
                   v_x1 l = Fin (x - a * b / (b * b - a * c))))
         \<and> ir_x (rs ! k) = toFixed2 (Number_toString h) (v_x0 l)
         \<and> ir_x_next (rs ! k) = toFixed2 (Number_toString h) (v_x1 l)"
proof -
  let ?l = "fst (run_trace h st) ! k"
  note b = body_Inr [OF run_nth(2) [OF assms]]
  note n = run_nth(1) [OF assms]
  have m: "sel_method st = Modified \<longleftrightarrow> sel_method st \<noteq> Standard" by (cases "sel_method st") auto
  from b(2) have e: "evaluate h (equation st) (v_x0 ?l) = Inr (v_fx ?l)" by (simp add: calls_Inr)
  from b(3,4) have d: "\<exists>d dd. derivative h (equation st) ''x'' = Inr d
                \<and> evaluate h d (v_x0 ?l) = Inr (v_fpx ?l)
                \<and> derivative h d ''x'' = Inr dd
                \<and> evaluate h dd (v_x0 ?l) = Inr (v_fppx ?l)"
    by (auto simp: calls_Inr)
  from b(1,5) have s: "sel_method st = Standard \<longrightarrow> v_x1 ?l = js_sub (v_x0 ?l) (js_div (v_fx ?l) (v_fpx ?l))"
    by (simp add: next_x_def)
  from b(1,5) m have q: "sel_method st = Modified \<longrightarrow>
              v_x1 ?l = js_sub (v_x0 ?l)
                (js_div (js_mul (v_fx ?l) (v_fpx ?l))
                   (js_sub (js_mul (v_fpx ?l) (v_fpx ?l)) (js_mul (v_fx ?l) (v_fppx ?l))))"
    by (simp add: next_x_def Let_def Math_pow2_def)
  have r: "\<forall>x a b c. v_x0 ?l = Fin x \<and> v_fx ?l = Fin a \<and> v_fpx ?l = Fin b \<and> v_fppx ?l = Fin c \<longrightarrow>
                (sel_method st = Standard \<and> b \<noteq> 0 \<longrightarrow> v_x1 ?l = Fin (x - a / b))
              \<and> (sel_method st = Modified \<and> b * b - a * c \<noteq> 0 \<longrightarrow>
                   v_x1 ?l = Fin (x - a * b / (b * b - a * c)))"
    using b(1,5) by (auto simp: next_x_finite)
  from n have x: "ir_x (rs ! k) = toFixed2 (Number_toString h) (v_x0 ?l)"
    "ir_x_next (rs ! k) = toFixed2 (Number_toString h) (v_x1 ?l)"
    by (simp_all add: mk_result_fields)
  from n e d s q r x show ?thesis unfolding Let_def by blast
qed

theorem update_law_witness:
  "run example_host scenario_A =
     Inr (fmt_from example_host Standard 0 (fst (run_trace example_host scenario_A)))
   \<and> v_x0 (fst (run_trace example_host scenario_A) ! 1) = Fin (13 / 6)
   \<and> v_fx (fst (run_trace example_host scenario_A) ! 1) = Fin (25 / 36)
   \<and> v_fpx (fst (run_trace example_host scenario_A) ! 1) = Fin (13 / 3)
   \<and> v_x1 (fst (run_trace example_host scenario_A) ! 1) = Fin (13 / 6 - (25 / 36) / (13 / 3))
   \<and> run cubic_host scenario_B =
     Inr (fmt_from cubic_host Modified 0 (fst (run_trace cubic_host scenario_B)))
   \<and> map v_x0 (fst (run_trace cubic_host scenario_B)) = [Fin (- 1), Fin (- (182 / 167))]
   \<and> map v_fx (fst (run_trace cubic_host scenario_B)) = [Fin 90, Fin (411631200 / 4657463)]
   \<and> map v_fpx (fst (run_trace cubic_host scenario_B)) = [Fin 12, Fin (673428 / 27889)]
   \<and> map v_fppx (fst (run_trace cubic_host scenario_B)) = [Fin (- 132), Fin (- (23124 / 167))]
   \<and> evaluate cubic_host ''72 * x - 60'' (Fin (- (182 / 167))) = Inr (Fin (- (23124 / 167)))
   \<and> v_x1 (fst (run_trace cubic_host scenario_B) ! 0) =
       Fin (- 1 - 90 * 12 / (12 * 12 - 90 * (- 132)))
   \<and> v_x1 (fst (run_trace cubic_host scenario_B) ! 0) = Fin (- (182 / 167))
   \<and> ir_fppx (fmt_from cubic_host Modified 0 (fst (run_trace cubic_host scenario_B)) ! 0) = Some ''-132.00''
   \<and> ir_x_next (fmt_from cubic_host Modified 0 (fst (run_trace cubic_host scenario_B)) ! 0) = ''-1.09''"
proof -
  let ?a = "fst (run_trace example_host scenario_A) ! 1"
  let ?b = "fst (run_trace cubic_host scenario_B) ! 0"
  have ra: "run example_host scenario_A =
     Inr (fmt_from example_host Standard 0 (fst (run_trace example_host scenario_A)))"
    by (simp add: run_trace_eq scenario_A_trace scenario_methods)
  have ka: "(1::nat) < length (fmt_from example_host Standard 0 (fst (run_trace example_host scenario_A)))"
    by (simp add: scenario_A_trace)
  have rb: "run cubic_host scenario_B =
     Inr (fmt_from cubic_host Modified 0 (fst (run_trace cubic_host scenario_B)))"
    by (simp add: run_trace_eq scenario_B_trace scenario_B_fields)
  have kb: "(0::nat) < length (fmt_from cubic_host Modified 0 (fst (run_trace cubic_host scenario_B)))"
    by (simp add: scenario_B_trace)
  have va: "v_x0 ?a = Fin (13 / 6) \<and> v_fx ?a = Fin (25 / 36) \<and> v_fpx ?a = Fin (13 / 3) \<and> v_fppx ?a = Fin 2"
    by (simp add: scenario_A_trace)
  have vb: "v_x0 ?b = Fin (- 1) \<and> v_fx ?b = Fin 90 \<and> v_fpx ?b = Fin 12 \<and> v_fppx ?b = Fin (- 132)"
    by (simp add: scenario_B_trace)
  have nz: "(13 / 3 :: real) \<noteq> 0" "(12 * 12 - 90 * (- 132) :: real) \<noteq> 0" by simp_all
  from update_law [OF ra ka, unfolded Let_def] va nz(1) scenario_methods(1)
  have 1: "v_x1 ?a = Fin (13 / 6 - (25 / 36) / (13 / 3))" by blast
  from update_law [OF rb kb, unfolded Let_def] vb nz(2) scenario_B_fields(1)
  have 2: "v_x1 ?b = Fin (- 1 - 90 * 12 / (12 * 12 - 90 * (- 132)))" by blast
  have 3: "v_x1 ?b = Fin (- (182 / 167))" by (simp add: scenario_B_trace)
  have 4: "map v_x0 (fst (run_trace cubic_host scenario_B)) = [Fin (- 1), Fin (- (182 / 167))]"
    "map v_fx (fst (run_trace cubic_host scenario_B)) = [Fin 90, Fin (411631200 / 4657463)]"
    "map v_fpx (fst (run_trace cubic_host scenario_B)) = [Fin 12, Fin (673428 / 27889)]"
    "map v_fppx (fst (run_trace cubic_host scenario_B)) = [Fin (- 132), Fin (- (23124 / 167))]"
    by (simp_all add: scenario_B_trace)
  have 5: "evaluate cubic_host ''72 * x - 60'' (Fin (- (182 / 167))) = Inr (Fin (- (23124 / 167)))"
    by (simp add: cubic_host_def js_simps)
  have 6: "ir_fppx (fmt_from cubic_host Modified 0 (fst (run_trace cubic_host scenario_B)) ! 0) = Some ''-132.00''"
    "ir_x_next (fmt_from cubic_host Modified 0 (fst (run_trace cubic_host scenario_B)) ! 0) = ''-1.09''"
    by (simp_all add: scenario_B_trace mk_result_fields scenario_B_shown)
  from ra va 1 rb 4 5 2 3 6 show ?thesis by blast
qed

text \<open>
  C2. When the iteration count is positive and no evaluation throws in any pass, the run
  returns, the handler stores its list, and the list has exactly as many records as the
  count says: nothing in the loop looks at convergence. Record \<open>k\<close> is the formatting
  of pass \<open>k\<close>. The first pass is entered with the parsed initial guess, and every
  later pass with the unrounded \<^verbatim>\<open>x1\<close> of the pass before it.
\<close>

theorem fixed_length_chain:
  assumes "0 < iterations st" and "snd (run_trace h st) = None"
  shows "\<exists>rs. run h st = Inr rs
      \<and> results (calculateNewtonRaphson h st) = rs
      \<and> error (calculateNewtonRaphson h st) = []
      \<and> length rs = nat (iterations st)
      \<and> length (fst (run_trace h st)) = nat (iterations st)
      \<and> (\<forall>k<length rs. rs ! k = mk_result h (sel_method st) (int k) (fst (run_trace h st) ! k)
            \<and> ir_iteration (rs ! k) = int k + 1)
      \<and> v_x0 (fst (run_trace h st) ! 0) = parseFloat (initialGuess st)
      \<and> (\<forall>k. 0 < k \<and> k < length rs \<longrightarrow>
            v_x0 (fst (run_trace h st) ! k) = v_x1 (fst (run_trace h st) ! (k - 1)))"
proof -
  let ?ls = "fst (run_trace h st)"
  let ?rs = "fmt_from h (sel_method st) 0 ?ls"
  note s = run_success [OF assms(2)]
  have len: "length ?ls = nat (iterations st)" by (rule run_trace_length [OF assms(2)])
  with assms(1) have ne: "?ls \<noteq> []" by auto
  have first: "v_x0 (?ls ! 0) = parseFloat (initialGuess st)"
    using ne unfolding run_trace_def by (rule trace_first)
  have chain: "v_x0 (?ls ! k) = v_x1 (?ls ! (k - 1))" if "0 < k" "k < length ?rs" for k
  proof -
    from that obtain j where j: "k = Suc j" by (cases k) auto
    with that have "Suc j < length ?ls" by (simp add: length_fmt_from)
    then have "v_x0 (?ls ! Suc j) = v_x1 (?ls ! j)"
      unfolding run_trace_def by (rule trace_chain)
    with j show ?thesis by simp
  qed
  have nth: "?rs ! k = mk_result h (sel_method st) (int k) (?ls ! k) \<and> ir_iteration (?rs ! k) = int k + 1"
    if "k < length ?rs" for k
    using that by (simp add: length_fmt_from nth_fmt_from mk_result_fields)
  have "results (calculateNewtonRaphson h st) = ?rs" and "error (calculateNewtonRaphson h st) = []"
    by (simp_all add: s(2))
  with s(1) s(3) len first nth chain show ?thesis by blast
qed

theorem fixed_length_chain_witness:
  "0 < iterations scenario_A
   \<and> snd (run_trace example_host scenario_A) = None
   \<and> length (results (calculateNewtonRaphson example_host scenario_A)) = 3
   \<and> map v_x0 (fst (run_trace example_host scenario_A)) = [Fin 3, Fin (13 / 6), Fin (313 / 156)]
   \<and> map v_x1 (fst (run_trace example_host scenario_A)) = [Fin (13 / 6), Fin (313 / 156), Fin (195313 / 97656)]
   \<and> map ir_x (results (calculateNewtonRaphson example_host scenario_A)) = [''3.00'', ''2.17'', ''2.01'']"
proof -
  have n: "0 < iterations scenario_A" by (simp add: scenario_A_def example_state_def)
  have ok: "snd (run_trace example_host scenario_A) = None" by (simp add: scenario_A_trace)
  have "map ir_x (fmt_from example_host Standard 0 (fst (run_trace example_host scenario_A))) = [''3.00'', ''2.17'', ''2.01'']"
    by (simp_all add: scenario_A_trace mk_result_fields fixed_values)
  moreover have "sel_method scenario_A = Standard" by (simp add: scenario_A_def example_state_def)
  ultimately show ?thesis
    using fixed_length_chain [OF n ok] n ok run_success(2) [OF ok]
    by (simp add: scenario_A_trace)
qed

text \<open>
  C3, as stated, fails on the revision of the page in the second source file. There every
  pass reassigns \<^verbatim>\<open>x1 = parseFloat(x1.toFixed(2))\<close> before \<^verbatim>\<open>x0 = x1\<close>, so the
  value carried into the next pass is the rounded one. In scenario A the first pass
  computes \<open>13/6\<close> and carries \<open>2.17\<close>; the second pass is entered with \<open>2.17\<close> and
  shows \<open>f(x) = 0.71\<close> and \<open>f'(x) = 4.34\<close>, where the page of \<^verbatim>\<open>page.tsx\<close>,
  which carries \<open>13/6\<close>, shows \<open>0.69\<close> and \<open>4.33\<close>.
\<close>

theorem rounded_iterate_carried_p0:
  "map_sum id w_x1_first (body_p0 example_host ''x^2 - 4'' Standard (Fin 3)) = Inr (Fin (13 / 6))
   \<and> map_sum id w_x1 (body_p0 example_host ''x^2 - 4'' Standard (Fin 3)) = Inr (Fin (217 / 100))
   \<and> map_sum id (map p0_x) (run_p0 example_host scenario_A_p0) = Inr [''3.00'', ''2.17'', ''2.01'']
   \<and> map_sum id (map p0_fx) (run_p0 example_host scenario_A_p0) = Inr [''5.00'', ''0.71'', ''0.04'']
   \<and> map_sum id (map p0_fpx) (run_p0 example_host scenario_A_p0) = Inr [''6.00'', ''4.34'', ''4.02'']
   \<and> map v_x0 (fst (run_trace example_host scenario_A)) = [Fin 3, Fin (13 / 6), Fin (313 / 156)]
   \<and> map ir_x (results (calculateNewtonRaphson example_host scenario_A)) = [''3.00'', ''2.17'', ''2.01'']
   \<and> map ir_fx (results (calculateNewtonRaphson example_host scenario_A)) = [''5.00'', ''0.69'', ''0.03'']
   \<and> map ir_fpx (results (calculateNewtonRaphson example_host scenario_A)) = [''6.00'', ''4.33'', ''4.01'']"
  by (simp add: body_p0_passes run_p0_scenario_A mk_result_p0_fields fixed_values
      scenario_A_state scenario_A_shown)
     (simp add: scenario_A_trace)

text \<open>
  C3, amended. On the page of \<^verbatim>\<open>page.tsx\<close> rounding is display only: every pass
  after the first is entered with the next iterate of the pass before it, which is the
  value of the update formula and not a rounded one; the records show the entering and
  the next iterate through \<open>toFixed(2)\<close>; and the passes and the records of a run depend
  on the expression, the guess, the count, the method and the true-root text only, so two
  runs with the same configuration give the same chain. The revision in the second file
  rounds each step: the next iterate is reassigned to \<open>parseFloat\<close> of its
  \<open>toFixed(2)\<close> and the loop goes on with that value.
\<close>

theorem rounding_is_display_only:
  "(\<forall>k. Suc k < length (fst (run_trace h st)) \<longrightarrow>
       v_x0 (fst (run_trace h st) ! Suc k) = v_x1 (fst (run_trace h st) ! k))
   \<and> (\<forall>l\<in>set (fst (run_trace h st)).
        v_x1 l = next_x (sel_method st) (v_x0 l) (v_fx l) (v_fpx l) (v_fppx l))
   \<and> (\<forall>rs k. run h st = Inr rs \<and> k < length rs \<longrightarrow>
        ir_x (rs ! k) = toFixed2 (Number_toString h) (v_x0 (fst (run_trace h st) ! k))
      \<and> ir_x_next (rs ! k) = toFixed2 (Number_toString h) (v_x1 (fst (run_trace h st) ! k)))
   \<and> (equation st' = equation st \<and> initialGuess st' = initialGuess st
        \<and> iterations st' = iterations st \<and> sel_method st' = sel_method st
        \<and> trueRoot st' = trueRoot st
      \<longrightarrow> run_trace h st' = run_trace h st \<and> run h st' = run h st)
   \<and> (i < n \<and> body_p0 h eq m x = Inr w \<longrightarrow>
        w_x1 w = parseFloat (toFixed2 (Number_toString h) (w_x1_first w))
      \<and> loop_p0 h eq m n i x acc =
          loop_p0 h eq m n (i + 1) (parseFloat (toFixed2 (Number_toString h) (w_x1_first w)))
            (acc @ [mk_result_p0 h m i w]))"
proof (intro conjI allI impI ballI)
  fix k assume "Suc k < length (fst (run_trace h st))"
  then show "v_x0 (fst (run_trace h st) ! Suc k) = v_x1 (fst (run_trace h st) ! k)"
    by (rule run_trace_chain)
next
  fix l assume "l \<in> set (fst (run_trace h st))"
  from body_Inr(1,5) [OF run_trace_body [OF this]]
  show "v_x1 l = next_x (sel_method st) (v_x0 l) (v_fx l) (v_fpx l) (v_fppx l)" by simp
next
  fix rs k assume a: "run h st = Inr rs \<and> k < length rs"
  then have "rs ! k = mk_result h (sel_method st) (int k) (fst (run_trace h st) ! k)"
    by (simp add: run_nth(1))
  then show "ir_x (rs ! k) = toFixed2 (Number_toString h) (v_x0 (fst (run_trace h st) ! k))"
    and "ir_x_next (rs ! k) = toFixed2 (Number_toString h) (v_x1 (fst (run_trace h st) ! k))"
    by (simp_all add: mk_result_fields)
next
  assume a: "equation st' = equation st \<and> initialGuess st' = initialGuess st
        \<and> iterations st' = iterations st \<and> sel_method st' = sel_method st
        \<and> trueRoot st' = trueRoot st"
  with run_trace_inputs [of st' st h]
  show "run_trace h st' = run_trace h st" and "run h st' = run h st"
    by blast+
next
  assume a: "i < n \<and> body_p0 h eq m x = Inr w"
  then show r: "w_x1 w = parseFloat (toFixed2 (Number_toString h) (w_x1_first w))"
    by (auto dest: body_p0_rounds)
  from a loop_p0_step [of i n h eq m x w acc] r
  show "loop_p0 h eq m n i x acc =
          loop_p0 h eq m n (i + 1) (parseFloat (toFixed2 (Number_toString h) (w_x1_first w)))
            (acc @ [mk_result_p0 h m i w])"
    by simp
qed

theorem rounding_is_display_only_witness:
  "map v_x0 (fst (run_trace example_host scenario_A)) = [Fin 3, Fin (13 / 6), Fin (313 / 156)]
   \<and> map v_x1 (fst (run_trace example_host scenario_A)) = [Fin (13 / 6), Fin (313 / 156), Fin (195313 / 97656)]
   \<and> v_x0 (fst (run_trace example_host scenario_A) ! Suc 0) = v_x1 (fst (run_trace example_host scenario_A) ! 0)
   \<and> map ir_x (results (calculateNewtonRaphson example_host scenario_A)) = [''3.00'', ''2.17'', ''2.01'']
   \<and> map ir_fx (results (calculateNewtonRaphson example_host scenario_A)) = [''5.00'', ''0.69'', ''0.03'']
   \<and> run_trace example_host (calculateNewtonRaphson example_host scenario_A) = run_trace example_host scenario_A
   \<and> w_x1_first \<lparr>w_x0 = Fin 3, w_fx = Fin 5, w_fpx = Fin 6, w_fppx = Fin 2,
          w_x1_first = Fin (13 / 6), w_x1 = Fin (217 / 100), w_et = Fin (8300 / 217)\<rparr> = Fin (13 / 6)
   \<and> w_x1 \<lparr>w_x0 = Fin 3, w_fx = Fin 5, w_fpx = Fin 6, w_fppx = Fin 2,
          w_x1_first = Fin (13 / 6), w_x1 = Fin (217 / 100), w_et = Fin (8300 / 217)\<rparr> =
       parseFloat (toFixed2 (Number_toString example_host) (Fin (13 / 6)))
   \<and> parseFloat (toFixed2 (Number_toString example_host) (Fin (13 / 6))) = Fin (217 / 100)"
proof -
  let ?ls = "fst (run_trace example_host scenario_A)"
  let ?w = "\<lparr>w_x0 = Fin 3, w_fx = Fin 5, w_fpx = Fin 6, w_fppx = Fin 2,
          w_x1_first = Fin (13 / 6), w_x1 = Fin (217 / 100), w_et = Fin (8300 / 217)\<rparr>"
  let ?st' = "calculateNewtonRaphson example_host scenario_A"
  have k: "Suc 0 < length ?ls" by (simp add: scenario_A_trace)
  have b: "(0::int) < 1 \<and> body_p0 example_host ''x^2 - 4'' Standard (Fin 3) = Inr ?w"
    by (simp add: body_p0_passes)
  have s: "equation ?st' = equation scenario_A \<and> initialGuess ?st' = initialGuess scenario_A
        \<and> iterations ?st' = iterations scenario_A \<and> sel_method ?st' = sel_method scenario_A
        \<and> trueRoot ?st' = trueRoot scenario_A"
    using run_success(2) [of example_host scenario_A] by (simp add: scenario_A_trace)
  note t = rounding_is_display_only
    [of example_host scenario_A ?st' 0 1 "''x^2 - 4''" Standard "Fin 3" ?w "[]"]
  from t k have 1: "v_x0 (?ls ! Suc 0) = v_x1 (?ls ! 0)" by blast
  from t s have 2: "run_trace example_host ?st' = run_trace example_host scenario_A" by blast
  from t b have 3: "w_x1 ?w = parseFloat (toFixed2 (Number_toString example_host) (w_x1_first ?w))"
    by blast
  then have 4: "w_x1 ?w = parseFloat (toFixed2 (Number_toString example_host) (Fin (13 / 6)))"
    by simp
  have 5: "parseFloat (toFixed2 (Number_toString example_host) (Fin (13 / 6))) = Fin (217 / 100)"
    by (simp add: fixed_values parse_values)
  have 6: "map v_x0 ?ls = [Fin 3, Fin (13 / 6), Fin (313 / 156)]"
    "map v_x1 ?ls = [Fin (13 / 6), Fin (313 / 156), Fin (195313 / 97656)]"
    by (simp_all add: scenario_A_trace)
  have 7: "map ir_x (results ?st') = [''3.00'', ''2.17'', ''2.01'']"
    "map ir_fx (results ?st') = [''5.00'', ''0.69'', ''0.03'']"
    by (simp_all add: scenario_A_state scenario_A_shown)
  have 8: "w_x1_first ?w = Fin (13 / 6)" by simp
  from 6 1 7 2 8 4 5 show ?thesis by blast
qed

text \<open>
  C4. In every record of a run the approximate error is
  \<open>|x_next - x| / |x_next| * 100\<close> with the new iterate as the denominator, computed
  from the unrounded iterates of the pass (the source takes the absolute value of the
  quotient, which is the quotient of the absolute values); only the field of the record
  is rounded, by \<open>toFixed(2)\<close>, and gets a percent sign.
\<close>

theorem approximate_error_law:
  assumes "run h st = Inr rs" and "k < length rs"
  shows "let l = fst (run_trace h st) ! k in
           rs ! k = mk_result h (sel_method st) (int k) l
         \<and> v_x1 l = next_x (sel_method st) (v_x0 l) (v_fx l) (v_fpx l) (v_fppx l)
         \<and> v_ea l = js_mul (js_div (Math_abs (js_sub (v_x1 l) (v_x0 l))) (Math_abs (v_x1 l))) (Fin 100)
         \<and> ir_error (rs ! k) = toFixed2 (Number_toString h) (v_ea l) @ ''%''"
proof -
  note b = run_nth(2) [OF assms]
  from run_nth(1) [OF assms] body_Inr [OF b] show ?thesis
    by (simp add: Let_def mk_result_fields calculateError_def abs_div)
qed

theorem approximate_error_law_witness:
  "run example_host scenario_A =
     Inr (fmt_from example_host Standard 0 (fst (run_trace example_host scenario_A)))
   \<and> (0::nat) < length (fmt_from example_host Standard 0 (fst (run_trace example_host scenario_A)))
   \<and> v_ea (fst (run_trace example_host scenario_A) ! 0) =
       js_mul (js_div (Math_abs (js_sub (Fin (13 / 6)) (Fin 3))) (Math_abs (Fin (13 / 6)))) (Fin 100)
   \<and> v_ea (fst (run_trace example_host scenario_A) ! 0) = Fin (500 / 13)
   \<and> ir_error (fmt_from example_host Standard 0 (fst (run_trace example_host scenario_A)) ! 0) = ''38.46%''"
proof -
  let ?l = "fst (run_trace example_host scenario_A) ! 0"
  have r: "run example_host scenario_A =
     Inr (fmt_from example_host Standard 0 (fst (run_trace example_host scenario_A)))"
    by (simp add: run_trace_eq scenario_A_trace scenario_methods)
  have k: "(0::nat) < length (fmt_from example_host Standard 0 (fst (run_trace example_host scenario_A)))"
    by (simp add: scenario_A_trace)
  have e: "ir_error (fmt_from example_host Standard 0 (fst (run_trace example_host scenario_A)) ! 0) = ''38.46%''"
    using scenario_A_records(2) k by (simp add: list_eq_iff_nth_eq)
  have v: "v_x0 ?l = Fin 3" "v_x1 ?l = Fin (13 / 6)" and a: "v_ea ?l = Fin (500 / 13)"
    by (simp_all add: scenario_A_trace)
  from approximate_error_law [OF r k]
  have "v_ea ?l = js_mul (js_div (Math_abs (js_sub (v_x1 ?l) (v_x0 ?l))) (Math_abs (v_x1 ?l))) (Fin 100)"
    by (simp add: Let_def)
  then have "v_ea ?l =
      js_mul (js_div (Math_abs (js_sub (Fin (13 / 6)) (Fin 3))) (Math_abs (Fin (13 / 6)))) (Fin 100)"
    by (simp only: v)
  with r k a e show ?thesis by blast
qed

text \<open>
  C5. In every record of a run the true error is
  \<open>|trueRoot - x_next| / |trueRoot| * 100\<close> for the reference value the handler
  resolved, shown through \<open>toFixed(2)\<close> with a percent sign. A text that parses to a
  nonzero finite number is that reference value. With the field left empty the reference
  value is 0 and the true error is not finite.
\<close>

theorem true_error_law:
  assumes "run h st = Inr rs" and "k < length rs"
  shows "let l = fst (run_trace h st) ! k; tr = trueRootValue (trueRoot st) in
           rs ! k = mk_result h (sel_method st) (int k) l
         \<and> v_et l = js_mul (js_div (Math_abs (js_sub tr (v_x1 l))) (Math_abs tr)) (Fin 100)
         \<and> ir_et (rs ! k) = toFixed2 (Number_toString h) (v_et l) @ ''%''
         \<and> (\<forall>r. parseFloat (trueRoot st) = Fin r \<and> r \<noteq> 0 \<longrightarrow> tr = Fin r)
         \<and> (trueRoot st = [] \<longrightarrow> tr = Fin 0 \<and> \<not> is_finite (v_et l))"
proof -
  let ?l = "fst (run_trace h st) ! k"
  let ?tr = "trueRootValue (trueRoot st)"
  note b = run_nth(2) [OF assms]
  have "\<not> is_finite (v_et ?l)" if "trueRoot st = []"
  proof -
    from that have "is_zero ?tr" by (simp add: true_root_values is_zero_def)
    then have "\<not> is_finite (js_mul (Math_abs (js_div (js_sub ?tr (v_x1 ?l)) ?tr)) (Fin 100))"
      by (intro mul_100_not_finite) (simp add: abs_finite div_zero_not_finite)
    with body_Inr(6) [OF b] show ?thesis by simp
  qed
  with run_nth(1) [OF assms] body_Inr(6) [OF b] show ?thesis
    by (auto simp: Let_def mk_result_fields abs_div true_root_values true_root_kept)
qed

theorem true_error_law_witness:
  "run example_host scenario_A =
     Inr (fmt_from example_host Standard 0 (fst (run_trace example_host scenario_A)))
   \<and> run example_host scenario_A_no_root =
     Inr (fmt_from example_host Standard 0 (fst (run_trace example_host scenario_A_no_root)))
   \<and> parseFloat (trueRoot scenario_A) = Fin 2
   \<and> v_et (fst (run_trace example_host scenario_A) ! 0) =
       js_mul (js_div (Math_abs (js_sub (Fin 2) (Fin (13 / 6)))) (Math_abs (Fin 2))) (Fin 100)
   \<and> v_et (fst (run_trace example_host scenario_A) ! 0) = Fin (25 / 3)
   \<and> ir_et (fmt_from example_host Standard 0 (fst (run_trace example_host scenario_A)) ! 0) = ''8.33%''
   \<and> trueRoot scenario_A_no_root = []
   \<and> \<not> is_finite (v_et (fst (run_trace example_host scenario_A_no_root) ! 0))
   \<and> ir_et (fmt_from example_host Standard 0 (fst (run_trace example_host scenario_A_no_root)) ! 0) = ''Infinity%''"
proof -
  let ?l = "fst (run_trace example_host scenario_A) ! 0"
  let ?l' = "fst (run_trace example_host scenario_A_no_root) ! 0"
  have r: "run example_host scenario_A =
     Inr (fmt_from example_host Standard 0 (fst (run_trace example_host scenario_A)))"
    by (simp add: run_trace_eq scenario_A_trace scenario_methods)
  have k: "(0::nat) < length (fmt_from example_host Standard 0 (fst (run_trace example_host scenario_A)))"
    by (simp add: scenario_A_trace)
  have r': "run example_host scenario_A_no_root =
     Inr (fmt_from example_host Standard 0 (fst (run_trace example_host scenario_A_no_root)))"
    by (simp add: run_trace_eq scenario_A_no_root_trace scenario_methods)
  have k': "(0::nat) < length (fmt_from example_host Standard 0 (fst (run_trace example_host scenario_A_no_root)))"
    by (simp add: scenario_A_no_root_trace)
  have e: "ir_et (fmt_from example_host Standard 0 (fst (run_trace example_host scenario_A)) ! 0) = ''8.33%''"
    using scenario_A_records(3) k by (simp add: list_eq_iff_nth_eq)
  have e': "ir_et (fmt_from example_host Standard 0 (fst (run_trace example_host scenario_A_no_root)) ! 0) = ''Infinity%''"
    using scenario_A_no_root_records k' by (simp add: list_eq_iff_nth_eq)
  have p: "parseFloat (trueRoot scenario_A) = Fin 2" and q: "trueRoot scenario_A_no_root = []"
    by (simp_all add: scenario_methods true_root_values)
  have v: "v_x1 ?l = Fin (13 / 6)" "trueRootValue (trueRoot scenario_A) = Fin 2"
    and a: "v_et ?l = Fin (25 / 3)"
    by (simp_all add: scenario_A_trace scenario_methods true_root_values)
  from true_error_law [OF r k]
  have "v_et ?l =
      js_mul (js_div (Math_abs (js_sub (trueRootValue (trueRoot scenario_A)) (v_x1 ?l)))
        (Math_abs (trueRootValue (trueRoot scenario_A)))) (Fin 100)"
    by (simp add: Let_def)
  then have c: "v_et ?l = js_mul (js_div (Math_abs (js_sub (Fin 2) (Fin (13 / 6)))) (Math_abs (Fin 2))) (Fin 100)"
    by (simp only: v)
  from true_error_law [OF r' k', unfolded Let_def] q have n: "\<not> is_finite (v_et ?l')"
    by blast
  from r r' p c a e q n e' show ?thesis by blast
qed

text \<open>
  C6. When no evaluation throws, the run returns all its records whatever the arithmetic
  does: a division by zero is a value, not an error. A zero \<open>f'(x)\<close> under Standard
  and a zero \<open>f'(x)^2 - f(x) * f''(x)\<close> under Modified make the next iterate
  non-finite; a zero next iterate makes the approximate error non-finite, a zero reference
  value the true error. A non-finite iterate stays non-finite in every later pass, and the
  records show such values as \<open>NaN\<close>, \<open>Infinity\<close> or \<open>-Infinity\<close>.
\<close>

theorem anomalies_do_not_abort:
  assumes "evaluator_ok h (equation st)"
  shows "\<exists>rs. run h st = Inr rs
      \<and> results (calculateNewtonRaphson h st) = rs
      \<and> error (calculateNewtonRaphson h st) = []
      \<and> length rs = nat (iterations st)
      \<and> (\<forall>k<length rs.
            let l = fst (run_trace h st) ! k in
              rs ! k = mk_result h (sel_method st) (int k) l
            \<and> (sel_method st = Standard \<and> is_zero (v_fpx l) \<longrightarrow> \<not> is_finite (v_x1 l))
            \<and> (sel_method st = Modified
                 \<and> is_zero (js_sub (Math_pow2 (v_fpx l)) (js_mul (v_fx l) (v_fppx l)))
                 \<longrightarrow> \<not> is_finite (v_x1 l))
            \<and> (is_zero (v_x1 l) \<longrightarrow> \<not> is_finite (v_ea l))
            \<and> (is_zero (trueRootValue (trueRoot st)) \<longrightarrow> \<not> is_finite (v_et l))
            \<and> (\<not> is_finite (v_x1 l) \<longrightarrow>
                 (\<forall>j. k \<le> j \<and> j < length rs \<longrightarrow>
                    \<not> is_finite (v_x1 (fst (run_trace h st) ! j))
                  \<and> ir_x_next (rs ! j) \<in> {''NaN'', ''Infinity'', ''-Infinity''}))
            \<and> (\<not> is_finite (v_ea l) \<longrightarrow> ir_error (rs ! k) \<in> {''NaN%'', ''Infinity%'', ''-Infinity%''})
            \<and> (\<not> is_finite (v_et l) \<longrightarrow> ir_et (rs ! k) \<in> {''NaN%'', ''Infinity%'', ''-Infinity%''}))"
proof -
  let ?ls = "fst (run_trace h st)"
  let ?rs = "fmt_from h (sel_method st) 0 ?ls"
  let ?big = "Number_toString h"
  have ok: "snd (run_trace h st) = None" by (rule run_trace_ok [OF assms])
  note s = run_success [OF ok]
  have res: "results (calculateNewtonRaphson h st) = ?rs" "error (calculateNewtonRaphson h st) = []"
    by (simp_all add: s(2))
  have pass: "let l = ?ls ! k in
              ?rs ! k = mk_result h (sel_method st) (int k) l
            \<and> (sel_method st = Standard \<and> is_zero (v_fpx l) \<longrightarrow> \<not> is_finite (v_x1 l))
            \<and> (sel_method st = Modified
                 \<and> is_zero (js_sub (Math_pow2 (v_fpx l)) (js_mul (v_fx l) (v_fppx l)))
                 \<longrightarrow> \<not> is_finite (v_x1 l))
            \<and> (is_zero (v_x1 l) \<longrightarrow> \<not> is_finite (v_ea l))
            \<and> (is_zero (trueRootValue (trueRoot st)) \<longrightarrow> \<not> is_finite (v_et l))
            \<and> (\<not> is_finite (v_x1 l) \<longrightarrow>
                 (\<forall>j. k \<le> j \<and> j < length ?rs \<longrightarrow>
                    \<not> is_finite (v_x1 (?ls ! j))
                  \<and> ir_x_next (?rs ! j) \<in> {''NaN'', ''Infinity'', ''-Infinity''}))
            \<and> (\<not> is_finite (v_ea l) \<longrightarrow> ir_error (?rs ! k) \<in> {''NaN%'', ''Infinity%'', ''-Infinity%''})
            \<and> (\<not> is_finite (v_et l) \<longrightarrow> ir_et (?rs ! k) \<in> {''NaN%'', ''Infinity%'', ''-Infinity%''})"
    if k: "k < length ?rs" for k
  proof -
    let ?l = "?ls ! k"
    note n = run_nth(1) [OF s(1) k]
    note b = body_Inr [OF run_nth(2) [OF s(1) k]]
    have c1: "\<not> is_finite (v_x1 ?l)" if "sel_method st = Standard" "is_zero (v_fpx ?l)"
      using that b(5) next_x_standard_zero by simp
    have c2: "\<not> is_finite (v_x1 ?l)"
      if "sel_method st = Modified" "is_zero (js_sub (Math_pow2 (v_fpx ?l)) (js_mul (v_fx ?l) (v_fppx ?l)))"
      using that b(5) next_x_modified_zero by simp
    have c3: "\<not> is_finite (v_ea ?l)" if "is_zero (v_x1 ?l)"
      using that b(7) error_zero_not_finite by simp
    have c4: "\<not> is_finite (v_et ?l)" if "is_zero (trueRootValue (trueRoot st))"
      using that b(6) true_error_zero_not_finite by simp
    have c5: "\<not> is_finite (v_x1 (?ls ! j)) \<and> ir_x_next (?rs ! j) \<in> {''NaN'', ''Infinity'', ''-Infinity''}"
      if "\<not> is_finite (v_x1 ?l)" "k \<le> j" "j < length ?rs" for j
    proof -
      from that(3) have j: "j < length ?ls" by (simp add: length_fmt_from)
      have "\<not> is_finite (v_x1 (?ls ! j))"
        using that(2) j that(1) unfolding run_trace_def
        by (rule not_finite_onwards [OF refl])
      moreover have "ir_x_next (?rs ! j) = toFixed2 ?big (v_x1 (?ls ! j))"
        using j by (simp add: nth_fmt_from mk_result_fields)
      ultimately show ?thesis using toFixed2_not_finite [of "v_x1 (?ls ! j)" ?big] by auto
    qed
    have c6: "ir_error (?rs ! k) \<in> {''NaN%'', ''Infinity%'', ''-Infinity%''}" if "\<not> is_finite (v_ea ?l)"
      using toFixed2_not_finite [OF that, of ?big] n by (auto simp: mk_result_fields)
    have c7: "ir_et (?rs ! k) \<in> {''NaN%'', ''Infinity%'', ''-Infinity%''}" if "\<not> is_finite (v_et ?l)"
      using toFixed2_not_finite [OF that, of ?big] n by (auto simp: mk_result_fields)
    from n c1 c2 c3 c4 c5 c6 c7 show ?thesis unfolding Let_def by blast
  qed
  from s(1) res s(3) pass show ?thesis by blast
qed

theorem anomalies_do_not_abort_witness:
  "evaluator_ok example_host (equation anomaly)
   \<and> evaluator_ok example_host (equation flat_start)
   \<and> length (results (calculateNewtonRaphson example_host anomaly)) = 3
   \<and> error (calculateNewtonRaphson example_host anomaly) = []
   \<and> map ir_x_next (results (calculateNewtonRaphson example_host anomaly)) = [''0.00'', ''0.00'', ''0.00'']
   \<and> map ir_error (results (calculateNewtonRaphson example_host anomaly)) = [''NaN%'', ''NaN%'', ''NaN%'']
   \<and> is_zero (v_x1 (fst (run_trace example_host anomaly) ! 0))
   \<and> \<not> is_finite (v_ea (fst (run_trace example_host anomaly) ! 0))
   \<and> length (results (calculateNewtonRaphson example_host flat_start)) = 3
   \<and> is_zero (v_fpx (fst (run_trace example_host flat_start) ! 0))
   \<and> \<not> is_finite (v_x1 (fst (run_trace example_host flat_start) ! 2))
   \<and> map ir_x_next (results (calculateNewtonRaphson example_host flat_start)) = [''Infinity'', ''NaN'', ''NaN'']"
proof -
  have ok: "evaluator_ok example_host (equation anomaly)" "evaluator_ok example_host (equation flat_start)"
    by (simp_all add: more_scenario_fields example_host_ok)
  from anomalies_do_not_abort [OF ok(1)] obtain rs where rs:
    "run example_host anomaly = Inr rs" "results (calculateNewtonRaphson example_host anomaly) = rs"
    "error (calculateNewtonRaphson example_host anomaly) = []" "length rs = 3"
    "\<forall>k<length rs. is_zero (v_x1 (fst (run_trace example_host anomaly) ! k)) \<longrightarrow>
        \<not> is_finite (v_ea (fst (run_trace example_host anomaly) ! k))"
    unfolding Let_def by (auto simp: more_scenario_fields)
  from rs(1) have rs_eq: "rs = fmt_from example_host Standard 0 (fst (run_trace example_host anomaly))"
    by (simp add: run_trace_eq anomaly_trace more_scenario_fields)
  have z: "is_zero (v_x1 (fst (run_trace example_host anomaly) ! 0))"
    by (simp add: anomaly_trace is_zero_def)
  with rs(4,5) have nf: "\<not> is_finite (v_ea (fst (run_trace example_host anomaly) ! 0))" by simp
  from anomalies_do_not_abort [OF ok(2)] obtain rs' where rs':
    "run example_host flat_start = Inr rs'" "results (calculateNewtonRaphson example_host flat_start) = rs'"
    "length rs' = 3"
    "\<forall>k<length rs'. is_zero (v_fpx (fst (run_trace example_host flat_start) ! k)) \<longrightarrow>
        \<not> is_finite (v_x1 (fst (run_trace example_host flat_start) ! k))"
    "\<forall>k<length rs'. \<not> is_finite (v_x1 (fst (run_trace example_host flat_start) ! k)) \<longrightarrow>
        (\<forall>j. k \<le> j \<and> j < length rs' \<longrightarrow> \<not> is_finite (v_x1 (fst (run_trace example_host flat_start) ! j)))"
    unfolding Let_def by (auto simp: more_scenario_fields)
  from rs'(1) have rs'_eq: "rs' = fmt_from example_host Standard 0 (fst (run_trace example_host flat_start))"
    by (simp add: run_trace_eq flat_start_trace more_scenario_fields)
  have z': "is_zero (v_fpx (fst (run_trace example_host flat_start) ! 0))"
    by (simp add: flat_start_trace is_zero_def)
  with rs'(3,4) have "\<not> is_finite (v_x1 (fst (run_trace example_host flat_start) ! 0))" by simp
  with rs'(3) rs'(5) [rule_format, of 0 2]
  have nf': "\<not> is_finite (v_x1 (fst (run_trace example_host flat_start) ! 2))" by simp
  have "results (calculateNewtonRaphson example_host anomaly) =
      fmt_from example_host Standard 0 (fst (run_trace example_host anomaly))"
    and "results (calculateNewtonRaphson example_host flat_start) =
      fmt_from example_host Standard 0 (fst (run_trace example_host flat_start))"
    using rs(2) rs'(2) rs_eq rs'_eq by simp_all
  then show ?thesis
    using ok rs(3) z nf z' nf' anomaly_records flat_start_records
    by (simp add: length_fmt_from anomaly_trace flat_start_trace)
qed

text \<open>
  C7. When an evaluation throws in some pass of the run, after any number of completed
  passes, the run as a whole is that throw: the handler stores \<open>Error: \<close> followed by
  the message of the evaluator, the message is the one that \<open>f\<close>, \<open>f'\<close> or
  \<open>f''\<close> threw at the iterate of the failing pass, and \<^verbatim>\<open>results\<close> is not
  assigned, so the records of the completed passes are dropped.
\<close>

theorem evaluator_failure_aborts:
  assumes "snd (run_trace h st) = Some msg"
  shows "run h st = Inl msg
       \<and> calculateNewtonRaphson h st = st\<lparr>loading := False, error := ''Error: '' @ msg\<rparr>
       \<and> error (calculateNewtonRaphson h st) = ''Error: '' @ msg
       \<and> results (calculateNewtonRaphson h st) = results st
       \<and> int (length (fst (run_trace h st))) < iterations st
       \<and> (let x = entering (parseFloat (initialGuess st)) (fst (run_trace h st)) in
            f h (equation st) x = Inl msg \<or> fPrime h (equation st) x = Inl msg
            \<or> fDoublePrime h (equation st) x = Inl msg)"
proof -
  note fl = run_failure [OF assms]
  note st = run_trace_stop [OF assms]
  from body_Inl [OF st(1)] fl st(2) show ?thesis by (simp add: Let_def)
qed

theorem evaluator_failure_aborts_witness:
  "run_trace (throws_at_zero ''boom'') identity_from_3 =
     ([\<lparr>v_x0 = Fin 3, v_fx = Fin 3, v_fpx = Fin 1, v_fppx = Fin 0, v_x1 = Fin 0,
        v_et = NaN, v_ea = PInf\<rparr>],
      Some ''boom'')
   \<and> run (throws_at_zero ''boom'') identity_from_3 = Inl ''boom''
   \<and> error (calculateNewtonRaphson (throws_at_zero ''boom'') identity_from_3) = ''Error: boom''
   \<and> results (calculateNewtonRaphson (throws_at_zero ''boom'') identity_from_3) = []"
proof -
  have s: "snd (run_trace (throws_at_zero ''boom'') identity_from_3) = Some ''boom''"
    by (simp add: throws_trace)
  from evaluator_failure_aborts [OF s] throws_trace show ?thesis
    by (simp add: identity_from_3_fields)
qed

text \<open>
  C8, as stated, fails: the handler has no check of the initial guess. With the guess
  \<open>abc\<close>, which parses to NaN, and two passes of \<open>f(x) = x\<close>, no error is stored
  and both records are produced, showing NaN.
\<close>

theorem invalid_guess_counterexample:
  "parseFloat (initialGuess bad_guess) = NaN
   \<and> iterations bad_guess = 2
   \<and> error (calculateNewtonRaphson example_host bad_guess) = []
   \<and> map ir_iteration (results (calculateNewtonRaphson example_host bad_guess)) = [1, 2]
   \<and> map ir_x (results (calculateNewtonRaphson example_host bad_guess)) = [''NaN'', ''NaN'']
   \<and> map ir_x_next (results (calculateNewtonRaphson example_host bad_guess)) = [''NaN'', ''NaN'']"
  by (simp add: bad_guess_state bad_guess_records bad_guess_fields parse_values)
     (simp add: bad_guess_trace mk_result_fields)

text \<open>
  C8, amended. A guess that does not parse to a finite number is not rejected: the first
  pass is entered with the non-finite value, every completed pass has a non-finite
  entering and next iterate, and when every evaluation returns a number the run returns
  all its records, stores no error, and shows the iterates as \<open>NaN\<close>,
  \<open>Infinity\<close> or \<open>-Infinity\<close>.
\<close>

theorem invalid_guess_not_rejected:
  assumes "\<not> is_finite (parseFloat (initialGuess st))"
  shows "(\<forall>l\<in>set (fst (run_trace h st)). \<not> is_finite (v_x0 l) \<and> \<not> is_finite (v_x1 l))
       \<and> (\<forall>l. 0 < iterations st
              \<and> body h (equation st) (sel_method st) (trueRootValue (trueRoot st))
                   (parseFloat (initialGuess st)) = Inr l
            \<longrightarrow> fst (run_trace h st) \<noteq> [] \<and> hd (fst (run_trace h st)) = l
              \<and> v_x0 l = parseFloat (initialGuess st))
       \<and> (evaluator_ok h (equation st) \<longrightarrow>
            (\<exists>rs. run h st = Inr rs
               \<and> results (calculateNewtonRaphson h st) = rs
               \<and> error (calculateNewtonRaphson h st) = []
               \<and> length rs = nat (iterations st)
               \<and> (\<forall>k<length rs.
                    ir_x (rs ! k) \<in> {''NaN'', ''Infinity'', ''-Infinity''}
                  \<and> ir_x_next (rs ! k) \<in> {''NaN'', ''Infinity'', ''-Infinity''})))"
proof (intro conjI ballI allI impI)
  fix l assume "l \<in> set (fst (run_trace h st))"
  with assms show "\<not> is_finite (v_x0 l)" and "\<not> is_finite (v_x1 l)"
    unfolding run_trace_def by (auto dest: trace_not_finite)
next
  fix l
  assume a: "0 < iterations st
              \<and> body h (equation st) (sel_method st) (trueRootValue (trueRoot st))
                   (parseFloat (initialGuess st)) = Inr l"
  then show "fst (run_trace h st) \<noteq> []" and "hd (fst (run_trace h st)) = l"
    by (simp_all add: run_trace_first_pass)
  from a show "v_x0 l = parseFloat (initialGuess st)" by (auto dest: body_Inr(1))
next
  assume "evaluator_ok h (equation st)"
  then have ok: "snd (run_trace h st) = None" by (rule run_trace_ok)
  let ?ls = "fst (run_trace h st)"
  let ?rs = "fmt_from h (sel_method st) 0 ?ls"
  note s = run_success [OF ok]
  have res: "results (calculateNewtonRaphson h st) = ?rs" "error (calculateNewtonRaphson h st) = []"
    by (simp_all add: s(2))
  have shown: "ir_x (?rs ! k) \<in> {''NaN'', ''Infinity'', ''-Infinity''}
             \<and> ir_x_next (?rs ! k) \<in> {''NaN'', ''Infinity'', ''-Infinity''}"
    if "k < length ?rs" for k
  proof -
    from that have k: "k < length ?ls" by (simp add: length_fmt_from)
    then have "?ls ! k \<in> set ?ls" by simp
    with assms have "\<not> is_finite (v_x0 (?ls ! k))" "\<not> is_finite (v_x1 (?ls ! k))"
      unfolding run_trace_def by (auto dest: trace_not_finite)
    from toFixed2_not_finite [OF this(1), of "Number_toString h"]
      toFixed2_not_finite [OF this(2), of "Number_toString h"] k
    show ?thesis by (auto simp: nth_fmt_from mk_result_fields)
  qed
  from s(1) res s(3) shown
  show "\<exists>rs. run h st = Inr rs
               \<and> results (calculateNewtonRaphson h st) = rs
               \<and> error (calculateNewtonRaphson h st) = []
               \<and> length rs = nat (iterations st)
               \<and> (\<forall>k<length rs.
                    ir_x (rs ! k) \<in> {''NaN'', ''Infinity'', ''-Infinity''}
                  \<and> ir_x_next (rs ! k) \<in> {''NaN'', ''Infinity'', ''-Infinity''})"
    by blast
qed

theorem invalid_guess_not_rejected_witness:
  "parseFloat (initialGuess bad_guess) = NaN
   \<and> evaluator_ok example_host (equation bad_guess)
   \<and> (\<exists>rs. run example_host bad_guess = Inr rs
         \<and> results (calculateNewtonRaphson example_host bad_guess) = rs
         \<and> error (calculateNewtonRaphson example_host bad_guess) = []
         \<and> length rs = 2)
   \<and> map v_x0 (fst (run_trace example_host bad_guess)) = [NaN, NaN]
   \<and> parseFloat (initialGuess huge_guess) = PInf
   \<and> evaluator_ok example_host (equation huge_guess)
   \<and> (\<exists>rs. run example_host huge_guess = Inr rs
         \<and> results (calculateNewtonRaphson example_host huge_guess) = rs
         \<and> error (calculateNewtonRaphson example_host huge_guess) = []
         \<and> length rs = 2)
   \<and> map v_x0 (fst (run_trace example_host huge_guess)) = [PInf, NaN]"
proof -
  have p: "parseFloat (initialGuess bad_guess) = NaN" "parseFloat (initialGuess huge_guess) = PInf"
    by (simp_all add: bad_guess_fields huge_guess_fields parse_values)
  then have a: "\<not> is_finite (parseFloat (initialGuess bad_guess))"
    "\<not> is_finite (parseFloat (initialGuess huge_guess))"
    by (simp_all add: is_finite_def is_nan_def is_inf_def)
  have b: "evaluator_ok example_host (equation bad_guess)"
    "evaluator_ok example_host (equation huge_guess)"
    by (simp_all add: bad_guess_fields huge_guess_fields example_host_ok)
  from invalid_guess_not_rejected [OF a(1), of example_host] b(1)
  obtain rs where "run example_host bad_guess = Inr rs"
    "results (calculateNewtonRaphson example_host bad_guess) = rs"
    "error (calculateNewtonRaphson example_host bad_guess) = []"
    "length rs = nat (iterations bad_guess)"
    by blast
  then have 1: "\<exists>rs. run example_host bad_guess = Inr rs
         \<and> results (calculateNewtonRaphson example_host bad_guess) = rs
         \<and> error (calculateNewtonRaphson example_host bad_guess) = []
         \<and> length rs = 2"
    by (simp add: bad_guess_fields)
  from invalid_guess_not_rejected [OF a(2), of example_host] b(2)
  obtain rs' where "run example_host huge_guess = Inr rs'"
    "results (calculateNewtonRaphson example_host huge_guess) = rs'"
    "error (calculateNewtonRaphson example_host huge_guess) = []"
    "length rs' = nat (iterations huge_guess)"
    by blast
  then have 2: "\<exists>rs. run example_host huge_guess = Inr rs
         \<and> results (calculateNewtonRaphson example_host huge_guess) = rs
         \<and> error (calculateNewtonRaphson example_host huge_guess) = []
         \<and> length rs = 2"
    by (simp add: huge_guess_fields)
  have 3: "map v_x0 (fst (run_trace example_host bad_guess)) = [NaN, NaN]"
    "map v_x0 (fst (run_trace example_host huge_guess)) = [PInf, NaN]"
    by (simp_all add: bad_guess_trace huge_guess_trace)
  from p b 1 2 3 show ?thesis by blast
qed

text \<open>
  C9. Every completed pass of every run, whatever the method, derived the derivative of
  the expression, derived the derivative of that, and evaluated the result at the
  entering iterate of the pass. Under Standard the update does not use that value and the
  record has no \<^verbatim>\<open>fppx\<close> field; all the same, a pass in which \<open>f\<close> and
  \<open>f'\<close> evaluate and the second derivative cannot be derived, or throws when evaluated
  at the iterate, ends the run with that message.
\<close>

theorem second_derivative_always_evaluated:
  "(\<forall>l\<in>set (fst (run_trace h st)).
      \<exists>d dd. derivative h (equation st) ''x'' = Inr d \<and> derivative h d ''x'' = Inr dd
        \<and> evaluate h dd (v_x0 l) = Inr (v_fppx l))
   \<and> (sel_method st = Standard \<longrightarrow>
        (\<forall>l\<in>set (fst (run_trace h st)). v_x1 l = js_sub (v_x0 l) (js_div (v_fx l) (v_fpx l)))
      \<and> (\<forall>i l. ir_fppx (mk_result h (sel_method st) i l) = None))
   \<and> (int (length (fst (run_trace h st))) < iterations st
        \<and> x = entering (parseFloat (initialGuess st)) (fst (run_trace h st))
        \<and> evaluate h (equation st) x = Inr a
        \<and> derivative h (equation st) ''x'' = Inr d \<and> evaluate h d x = Inr b
        \<and> (derivative h d ''x'' = Inl msg
             \<or> derivative h d ''x'' = Inr dd \<and> evaluate h dd x = Inl msg)
      \<longrightarrow> run h st = Inl msg
        \<and> error (calculateNewtonRaphson h st) = ''Error: '' @ msg
        \<and> results (calculateNewtonRaphson h st) = results st)"
proof (intro conjI ballI impI allI)
  fix l assume "l \<in> set (fst (run_trace h st))"
  from body_Inr(4) [OF run_trace_body [OF this]]
  show "\<exists>d dd. derivative h (equation st) ''x'' = Inr d \<and> derivative h d ''x'' = Inr dd
        \<and> evaluate h dd (v_x0 l) = Inr (v_fppx l)"
    by (simp add: calls_Inr)
next
  fix l assume "sel_method st = Standard" and "l \<in> set (fst (run_trace h st))"
  with body_Inr(1,5) [OF run_trace_body [OF this(2)]]
  show "v_x1 l = js_sub (v_x0 l) (js_div (v_fx l) (v_fpx l))"
    by (simp add: next_x_def)
next
  fix i l assume "sel_method st = Standard"
  then show "ir_fppx (mk_result h (sel_method st) i l) = None"
    by (simp add: mk_result_fields)
next
  assume a: "int (length (fst (run_trace h st))) < iterations st
        \<and> x = entering (parseFloat (initialGuess st)) (fst (run_trace h st))
        \<and> evaluate h (equation st) x = Inr a
        \<and> derivative h (equation st) ''x'' = Inr d \<and> evaluate h d x = Inr b
        \<and> (derivative h d ''x'' = Inl msg
             \<or> derivative h d ''x'' = Inr dd \<and> evaluate h dd x = Inl msg)"
  then obtain e where e: "snd (run_trace h st) = Some e"
    using run_trace_stop_early by blast
  from a have "f h (equation st) x = Inr a" "fPrime h (equation st) x = Inr b"
    "fDoublePrime h (equation st) x = Inl msg"
    by (auto simp: calls_Inr calls_Inl)
  then have "body h (equation st) (sel_method st) (trueRootValue (trueRoot st)) x = Inl msg"
    by (rule body_second_derivative_throws)
  with run_trace_stop(1) [OF e] a have "e = msg" by simp
  with run_failure [OF e]
  show "run h st = Inl msg" and "error (calculateNewtonRaphson h st) = ''Error: '' @ msg"
    and "results (calculateNewtonRaphson h st) = results st"
    by simp_all
qed

theorem second_derivative_always_evaluated_witness:
  "sel_method scenario_A_no_root = Standard
   \<and> map v_x0 (fst (run_trace (second_derivative_fails_at (Fin (13 / 6)) ''boom'') scenario_A_no_root)) = [Fin 3]
   \<and> map v_x1 (fst (run_trace (second_derivative_fails_at (Fin (13 / 6)) ''boom'') scenario_A_no_root)) = [Fin (13 / 6)]
   \<and> evaluate (second_derivative_fails_at (Fin (13 / 6)) ''boom'') ''2'' (Fin 3) = Inr (Fin 2)
   \<and> evaluate (second_derivative_fails_at (Fin (13 / 6)) ''boom'') (equation scenario_A_no_root) (Fin (13 / 6)) = Inr (Fin (25 / 36))
   \<and> derivative (second_derivative_fails_at (Fin (13 / 6)) ''boom'') (equation scenario_A_no_root) ''x'' = Inr ''2 * x''
   \<and> evaluate (second_derivative_fails_at (Fin (13 / 6)) ''boom'') ''2 * x'' (Fin (13 / 6)) = Inr (Fin (13 / 3))
   \<and> derivative (second_derivative_fails_at (Fin (13 / 6)) ''boom'') ''2 * x'' ''x'' = Inr ''2''
   \<and> evaluate (second_derivative_fails_at (Fin (13 / 6)) ''boom'') ''2'' (Fin (13 / 6)) = Inl ''boom''
   \<and> run (second_derivative_fails_at (Fin (13 / 6)) ''boom'') scenario_A_no_root = Inl ''boom''
   \<and> error (calculateNewtonRaphson (second_derivative_fails_at (Fin (13 / 6)) ''boom'') scenario_A_no_root) = ''Error: boom''
   \<and> run (no_second_derivative ''boom'') scenario_A_no_root = Inl ''boom''"
proof -
  let ?h = "second_derivative_fails_at (Fin (13 / 6)) ''boom''"
  let ?g = "no_second_derivative ''boom''"
  have t: "map v_x0 (fst (run_trace ?h scenario_A_no_root)) = [Fin 3]"
    "map v_x1 (fst (run_trace ?h scenario_A_no_root)) = [Fin (13 / 6)]"
    by (simp_all add: fails_at_trace)
  have c: "evaluate ?h ''2'' (Fin 3) = Inr (Fin 2)"
    "evaluate ?h (equation scenario_A_no_root) (Fin (13 / 6)) = Inr (Fin (25 / 36))"
    "derivative ?h (equation scenario_A_no_root) ''x'' = Inr ''2 * x''"
    "evaluate ?h ''2 * x'' (Fin (13 / 6)) = Inr (Fin (13 / 3))"
    "derivative ?h ''2 * x'' ''x'' = Inr ''2''"
    "evaluate ?h ''2'' (Fin (13 / 6)) = Inl ''boom''"
    by (simp_all add: fails_at_calls scenario_A_no_root_fields)
  have p: "int (length (fst (run_trace ?h scenario_A_no_root))) < iterations scenario_A_no_root"
    "Fin (13 / 6) = entering (parseFloat (initialGuess scenario_A_no_root)) (fst (run_trace ?h scenario_A_no_root))"
    by (simp_all add: fails_at_trace scenario_A_no_root_fields entering_def)
  from second_derivative_always_evaluated
    [of ?h scenario_A_no_root "Fin (13 / 6)" "Fin (25 / 36)" "''2 * x''" "Fin (13 / 3)" "''boom''" "''2''"]
    p c
  have "run ?h scenario_A_no_root = Inl ''boom''
      \<and> error (calculateNewtonRaphson ?h scenario_A_no_root) = ''Error: '' @ ''boom''"
    by blast
  then have 1: "run ?h scenario_A_no_root = Inl ''boom''"
    "error (calculateNewtonRaphson ?h scenario_A_no_root) = ''Error: boom''"
    by simp_all
  have q: "int (length (fst (run_trace ?g scenario_A_no_root))) < iterations scenario_A_no_root"
    "Fin 3 = entering (parseFloat (initialGuess scenario_A_no_root)) (fst (run_trace ?g scenario_A_no_root))"
    by (simp_all add: no_second_derivative_trace scenario_A_no_root_fields entering_def parse_values)
  have q': "evaluate ?g (equation scenario_A_no_root) (Fin 3) = Inr (Fin 5)"
    "derivative ?g (equation scenario_A_no_root) ''x'' = Inr ''2 * x''"
    "evaluate ?g ''2 * x'' (Fin 3) = Inr (Fin 6)"
    "derivative ?g ''2 * x'' ''x'' = Inl ''boom''"
    by (simp_all add: scenario_A_no_root_fields example_hosts js_simps)
  from second_derivative_always_evaluated
    [of ?g scenario_A_no_root "Fin 3" "Fin 5" "''2 * x''" "Fin 6" "''boom''" "''2''"] q q'
  have 2: "run ?g scenario_A_no_root = Inl ''boom''" by blast
  from scenario_methods(2) t c 1 2 show ?thesis by blast
qed

text \<open>
  C10, as stated, fails: the text \<open>Infinity\<close> does not parse to a nonzero finite
  number, yet it is not replaced by 0. \<^verbatim>\<open>parseFloat\<close> returns Infinity, which is
  not falsy, so Infinity is the reference value, and the true errors of scenario A show
  as \<open>NaN%\<close>, where the reference value 0 of an empty field shows \<open>Infinity%\<close>.
\<close>

theorem true_root_infinity_counterexample:
  "trueRoot scenario_A_inf_root = ''Infinity''
   \<and> parseFloat ''Infinity'' = PInf
   \<and> trueRootValue ''Infinity'' = PInf
   \<and> map ir_et (results (calculateNewtonRaphson example_host scenario_A_inf_root)) = [''NaN%'', ''NaN%'', ''NaN%'']
   \<and> trueRootValue (trueRoot scenario_A_no_root) = Fin 0
   \<and> map ir_et (results (calculateNewtonRaphson example_host scenario_A_no_root)) = [''Infinity%'', ''Infinity%'', ''Infinity%'']"
  by (simp add: scenario_A_inf_root_fields parse_values inf_root_state no_root_state
      scenario_A_inf_root_records scenario_A_no_root_records scenario_methods true_root_values
      trueRootValue_def or_zero_def is_zero_def is_nan_def)

text \<open>
  C10, amended. A true-root text that parses to NaN or to a zero (an empty field, a text
  that is no number, \<open>0\<close>) gives the reference value 0. A text that parses to an
  infinity is kept as the reference value. No text raises an error: replacing the
  true-root text changes neither the error the handler stores nor the iterates.
\<close>

theorem true_root_fallback:
  "(is_zero (parseFloat text) \<or> is_nan (parseFloat text) \<longrightarrow> trueRootValue text = Fin 0)
   \<and> (is_inf (parseFloat text) \<longrightarrow> trueRootValue text = parseFloat text)
   \<and> trueRootValue [] = Fin 0
   \<and> trueRootValue ''abc'' = Fin 0
   \<and> trueRootValue ''0'' = Fin 0
   \<and> error (calculateNewtonRaphson h (st\<lparr>trueRoot := text\<rparr>)) = error (calculateNewtonRaphson h st)
   \<and> map v_x1 (fst (run_trace h (st\<lparr>trueRoot := text\<rparr>))) = map v_x1 (fst (run_trace h st))"
proof -
  have "trueRootValue ''abc'' = Fin 0" "trueRootValue ''0'' = Fin 0"
    by (simp_all add: trueRootValue_def parse_values parse_values or_zero_def is_zero_def is_nan_def)
  then show ?thesis
    by (auto simp: trueRootValue_def or_zero_def is_zero_def is_nan_def is_inf_def
        parse_values error_true_root run_trace_true_root)
qed

theorem true_root_fallback_witness:
  "is_inf (parseFloat ''Infinity'')
   \<and> trueRootValue ''Infinity'' = PInf
   \<and> is_zero (parseFloat ''0'')
   \<and> trueRootValue ''0'' = Fin 0
   \<and> error (calculateNewtonRaphson example_host (scenario_A\<lparr>trueRoot := ''Infinity''\<rparr>)) = []"
proof -
  have a: "is_inf (parseFloat ''Infinity'')" and b: "is_zero (parseFloat ''0'')"
    by (simp_all add: parse_values is_inf_def is_zero_def)
  have e: "error (calculateNewtonRaphson example_host scenario_A) = []"
    using run_success(2) [of example_host scenario_A] by (simp add: scenario_A_trace)
  from true_root_fallback [of "''Infinity''" example_host scenario_A] a
  have 1: "trueRootValue ''Infinity'' = parseFloat ''Infinity''"
    and 2: "error (calculateNewtonRaphson example_host (scenario_A\<lparr>trueRoot := ''Infinity''\<rparr>)) =
       error (calculateNewtonRaphson example_host scenario_A)"
    by blast+
  from true_root_fallback [of "''0''" example_host scenario_A] b
  have 3: "trueRootValue ''0'' = Fin 0" by blast
  from a b 1 2 3 e show ?thesis by (simp add: parse_values)
qed

end
